theory Spec2Isabelle
  imports Main "HOL-Library.Log_Nat"
begin

section \<open>Numbers of the program\<close>

text \<open>
  The program computes with two kinds of binary floating-point numbers: \<open>*big.Float\<close>
  values (prices, thresholds, percentages) and \<open>float64\<close> values (inside
  \<open>IsFibonacciSequence\<close>). Both are modelled by the rational number they denote,
  together with the rounding that every operation of the program applies.

  Every \<open>big.Float\<close> of the program is made by \<open>SetString\<close> on a fresh value or
  by an operation whose receiver is a fresh value with such operands, so its precision is
  64 bits and its rounding mode is round-to-nearest-even. The exponent of a
  \<open>big.Float\<close> is a 32-bit integer; the model leaves it unbounded.
\<close>

definition pow2 :: "int \<Rightarrow> rat" where
  "pow2 e = (if 0 \<le> e then 2 ^ nat e else 1 / 2 ^ nat (- e))"

definition roundHalfEven :: "rat \<Rightarrow> int" where
  "roundHalfEven x =
     (let f = \<lfloor>x\<rfloor>; d = x - of_int f
      in if d < 1 / 2 then f else if 1 / 2 < d then f + 1 else if even f then f else f + 1)"

text \<open>
  \<open>binexp x\<close> is the binary exponent of a non-zero \<open>x\<close>: the integer \<open>e\<close> with
  \<open>2 ^ (e - 1) \<le> \<bar>x\<bar> < 2 ^ e\<close> (the exponent of Go's mantissa in \<open>[0.5, 1)\<close>).
\<close>

definition binexp :: "rat \<Rightarrow> int" where
  "binexp x =
     (let (a, b) = quotient_of \<bar>x\<bar>; n = bitlen a - bitlen b
      in if pow2 n \<le> \<bar>x\<bar> then n + 1 else n)"

text \<open>Rounding to a mantissa of \<open>p\<close> bits, to nearest, ties to even.\<close>

definition round_prec :: "nat \<Rightarrow> rat \<Rightarrow> rat" where
  "round_prec p x =
     (if x = 0 then 0
      else let q = pow2 (binexp x - int p) in of_int (roundHalfEven (x / q)) * q)"

subsection \<open>big.Float\<close>

datatype panic =
    IndexOutOfRange int nat
  | NilPointerDereference
  | ErrNaN

text \<open>
  The three forms of a \<open>big.Float\<close>: a signed zero, a finite non-zero number, a signed
  infinity. The flag is Go's \<open>neg\<close> field.
\<close>

datatype bigfloat = BZero bool | BFin rat | BInf bool

fun isneg :: "bigfloat \<Rightarrow> bool" where
  "isneg (BZero n) = n"
| "isneg (BFin x) = (x < 0)"
| "isneg (BInf n) = n"

fun Neg :: "bigfloat \<Rightarrow> bigfloat" where
  "Neg (BZero n) = BZero (\<not> n)"
| "Neg (BFin x) = BFin (- x)"
| "Neg (BInf n) = BInf (\<not> n)"

text \<open>
  \<open>z.Sub(x, y)\<close> for a fresh \<open>z\<close>, in the order of the cases of Go's
  \<open>math/big\<close>: finite operands; infinities of equal sign (a panic with
  \<open>ErrNaN\<close>); two zeros; \<open>\<plusminus>Inf - y\<close> and \<open>x - \<plusminus>0\<close>; then \<open>\<plusminus>0 - y\<close>
  and \<open>x - \<plusminus>Inf\<close>.
\<close>

fun Sub :: "bigfloat \<Rightarrow> bigfloat \<Rightarrow> panic + bigfloat" where
  "Sub (BFin x) (BFin y) =
     (if x = y then Inr (BZero False) else Inr (BFin (round_prec 64 (x - y))))"
| "Sub (BInf a) (BInf b) = (if a = b then Inl ErrNaN else Inr (BInf a))"
| "Sub (BZero a) (BZero b) = Inr (BZero (a \<and> \<not> b))"
| "Sub (BInf a) y = Inr (BInf a)"
| "Sub x (BZero b) = Inr x"
| "Sub x y = Inr (Neg y)"

text \<open>\<open>z.Quo(x, y)\<close>: the sign is \<open>x.neg != y.neg\<close>; \<open>0 / 0\<close> and \<open>Inf / Inf\<close> panic.\<close>

fun Quo :: "bigfloat \<Rightarrow> bigfloat \<Rightarrow> panic + bigfloat" where
  "Quo (BFin x) (BFin y) = Inr (BFin (round_prec 64 (x / y)))"
| "Quo (BZero a) (BZero b) = Inl ErrNaN"
| "Quo (BInf a) (BInf b) = Inl ErrNaN"
| "Quo (BZero a) y = Inr (BZero (a \<noteq> isneg y))"
| "Quo x (BInf b) = Inr (BZero (isneg x \<noteq> b))"
| "Quo x y = Inr (BInf (isneg x \<noteq> isneg y))"

text \<open>\<open>z.Mul(x, y)\<close> for a \<open>z\<close> of precision 64: \<open>0 * Inf\<close> panics.\<close>

fun Mul :: "bigfloat \<Rightarrow> bigfloat \<Rightarrow> panic + bigfloat" where
  "Mul (BFin x) (BFin y) = Inr (BFin (round_prec 64 (x * y)))"
| "Mul (BZero a) (BInf b) = Inl ErrNaN"
| "Mul (BInf a) (BZero b) = Inl ErrNaN"
| "Mul (BInf a) y = Inr (BInf (a \<noteq> isneg y))"
| "Mul x (BInf b) = Inr (BInf (isneg x \<noteq> b))"
| "Mul x y = Inr (BZero (isneg x \<noteq> isneg y))"

text \<open>\<open>big.NewFloat(100)\<close>: the value 100, exact at precision 53.\<close>

definition NewFloat100 :: bigfloat where
  "NewFloat100 = BFin 100"

text \<open>
  \<open>x.Cmp(y)\<close>: \<open>-1\<close>, \<open>0\<close> or \<open>1\<close>. Go compares the orders of the forms first
  (\<open>-2\<close> for \<open>-Inf\<close>, \<open>-1\<close> for negative finite, \<open>0\<close> for both zeros, and their
  opposites), and the magnitudes only of two finite numbers of one sign.
\<close>

fun ord :: "bigfloat \<Rightarrow> int" where
  "ord (BZero n) = 0"
| "ord (BFin x) = (if x < 0 then - 1 else 1)"
| "ord (BInf n) = (if n then - 2 else 2)"

definition Cmp :: "bigfloat \<Rightarrow> bigfloat \<Rightarrow> int" where
  "Cmp x y =
     (let mx = ord x; my = ord y
      in if mx < my then - 1
         else if my < mx then 1
         else (case (x, y) of
                 (BFin a, BFin b) \<Rightarrow> (if a < b then - 1 else if b < a then 1 else 0)
               | _ \<Rightarrow> 0))"

subsection \<open>float64\<close>

text \<open>
  An IEEE 754 binary64 number: finite (the sign of a zero is dropped, no operation of the
  program observes it), infinite with Go's sign flag, or not a number.
\<close>

datatype float64 = F64 rat | F64Inf bool | F64NaN

text \<open>
  Rounding a rational to binary64, to nearest, ties to even: 53 bits of mantissa for a
  normal number, the fixed spacing \<open>2 ^ - 1074\<close> for a subnormal one, infinity when
  the rounded number reaches \<open>2 ^ 1024\<close> (its binary exponent exceeds 1024).
\<close>

definition roundF64 :: "rat \<Rightarrow> float64" where
  "roundF64 x =
     (if x = 0 then F64 0
      else let q = pow2 (max (binexp x - 53) (- 1074));
               r = of_int (roundHalfEven (x / q)) * q
           in if 1024 < binexp r then F64Inf (x < 0) else F64 r)"

text \<open>\<open>x.Float64()\<close>, without the accuracy that the program discards.\<close>

fun Float64 :: "bigfloat \<Rightarrow> float64" where
  "Float64 (BZero n) = F64 0"
| "Float64 (BFin x) = roundF64 x"
| "Float64 (BInf n) = F64Inf n"

text \<open>The conversion \<open>float64(n)\<close> of an integer.\<close>

definition float64_of_int :: "int \<Rightarrow> float64" where
  "float64_of_int n = roundF64 (of_int n)"

text \<open>The product of two \<open>float64\<close> values: \<open>Inf * 0\<close> is not a number.\<close>

fun f64_mul :: "float64 \<Rightarrow> float64 \<Rightarrow> float64" where
  "f64_mul (F64 a) (F64 b) = roundF64 (a * b)"
| "f64_mul F64NaN y = F64NaN"
| "f64_mul x F64NaN = F64NaN"
| "f64_mul (F64Inf m) (F64Inf n) = F64Inf (m \<noteq> n)"
| "f64_mul (F64Inf m) (F64 b) = (if b = 0 then F64NaN else F64Inf (m \<noteq> (b < 0)))"
| "f64_mul (F64 a) (F64Inf n) = (if a = 0 then F64NaN else F64Inf ((a < 0) \<noteq> n))"

text \<open>\<open>math.Abs\<close>.\<close>

fun f64_abs :: "float64 \<Rightarrow> float64" where
  "f64_abs (F64 a) = F64 \<bar>a\<bar>"
| "f64_abs (F64Inf n) = F64Inf False"
| "f64_abs F64NaN = F64NaN"

text \<open>The comparison \<open>x >= y\<close> of two \<open>float64\<close> values: false when either is not a number.\<close>

fun f64_ge :: "float64 \<Rightarrow> float64 \<Rightarrow> bool" where
  "f64_ge (F64 a) (F64 b) = (b \<le> a)"
| "f64_ge F64NaN y = False"
| "f64_ge x F64NaN = False"
| "f64_ge (F64Inf m) (F64Inf n) = (\<not> m \<or> n)"
| "f64_ge (F64Inf m) (F64 b) = (\<not> m)"
| "f64_ge (F64 a) (F64Inf n) = n"

section \<open>The escalation ladder\<close>

text \<open>Go's \<open>int\<close> is 64 bits wide and wraps around in two's complement.\<close>

definition wrap64 :: "int \<Rightarrow> int" where
  "wrap64 x = (x + 2 ^ 63) mod 2 ^ 64 - 2 ^ 63"

text \<open>The loop \<open>for i := 2; i < n; i++ { fib[i] = fib[i-1] + fib[i-2] }\<close>.\<close>

function fibLoop :: "nat \<Rightarrow> nat \<Rightarrow> int list \<Rightarrow> int list" where
  "fibLoop i n fib =
     (if i < n then fibLoop (i + 1) n (fib[i := wrap64 (fib ! (i - 1) + fib ! (i - 2))])
      else fib)"
  by pat_completeness auto
termination
  by (relation "measure (\<lambda>(i, n, fib). n - i)") auto

text \<open>
  \<open>generateFibonacciSequence(n)\<close>: a slice of \<open>n\<close> zeros, whose first two cells are
  set to 1 and 2 (a panic when the slice is shorter), then the loop. The program calls
  it with the constant 20 only; a negative \<open>n\<close>, where \<open>make\<close> panics, is outside the
  argument type of the model.
\<close>

definition generateFibonacciSequence :: "nat \<Rightarrow> panic + int list" where
  "generateFibonacciSequence n =
     (let fib = replicate n 0
      in if n < 1 then Inl (IndexOutOfRange 0 n)
         else if n < 2 then Inl (IndexOutOfRange 1 n)
         else Inr (fibLoop 2 n (fib[0 := 1, 1 := 2])))"

text \<open>The package variable \<open>fibonacciSequence = generateFibonacciSequence(20)\<close>.\<close>

definition fibonacciSequence :: "int list" where
  "fibonacciSequence = (case generateFibonacciSequence 20 of Inr fib \<Rightarrow> fib | Inl p \<Rightarrow> [])"

text \<open>
  \<open>IsFibonacciSequence\<close>. The two \<open>Float64()\<close> calls come first (a nil threshold
  panics there; the change is never nil, it is the result of
  \<open>calculatePercentageChange\<close>), then the unchecked read of the ladder, then the
  comparison in \<open>float64\<close>. The parameter \<open>fibonacciSequence\<close> of the source, which
  hides the package variable, is \<open>fibSeq\<close>.
\<close>

definition IsFibonacciSequence ::
  "bigfloat \<Rightarrow> bigfloat option \<Rightarrow> int list \<Rightarrow> int \<Rightarrow> panic + int" where
  "IsFibonacciSequence currentChange baseThreshold fibSeq currentThresholdIndex =
     (let change = Float64 currentChange
      in case baseThreshold of
           None \<Rightarrow> Inl NilPointerDereference
         | Some b \<Rightarrow>
             (let base = Float64 b
              in if currentThresholdIndex < 0 \<or> int (length fibSeq) \<le> currentThresholdIndex
                 then Inl (IndexOutOfRange currentThresholdIndex (length fibSeq))
                 else (let currentThreshold =
                             f64_mul base (float64_of_int (fibSeq ! nat currentThresholdIndex))
                       in if f64_ge (f64_abs change) currentThreshold
                          then Inr (currentThresholdIndex + 1)
                          else Inr currentThresholdIndex)))"

section \<open>Data model\<close>

text \<open>
  \<open>JSONData\<close>, one quote of the data source. After \<open>UnmarshalJSON\<close> every
  \<open>*big.Float\<close> field points to a value, so the fields are values here.
\<close>

record JSONData =
  Symbol :: string
  Name :: string
  Trade :: bigfloat
  Pricechange :: bigfloat
  Changepercent :: bigfloat
  Buy :: bigfloat
  Sell :: bigfloat
  Settlement :: bigfloat
  Open :: bigfloat
  High :: bigfloat
  Low :: bigfloat
  Volume :: int
  Amount :: int
  Code :: string
  Ticktime :: string

text \<open>
  \<open>CodeRule\<close>, one watched instrument. \<open>Up\<close> and \<open>Down\<close> are pointers that
  \<open>parseCodes\<close> leaves nil when the threshold does not parse. Its field \<open>Code\<close> is
  \<open>RuleCode\<close> here, \<open>Code\<close> being the field of the quote.
\<close>

record CodeRule =
  RuleCode :: string
  Up :: "bigfloat option"
  Down :: "bigfloat option"

record LogData =
  InitPrice :: bool
  UpIndex :: int
  DownIndex :: int

text \<open>The package variable \<open>LogMap\<close>, keyed by the code followed by the day.\<close>

type_synonym LogMap = "string \<rightharpoonup> LogData"

text \<open>
  The text accumulated in \<open>logStr\<close> is kept as the list of the lines appended to it,
  each with the arguments of its format string. The labels \<open>s\<close> of the gap line are
  the empty string, the string of the source for a higher opening and the one for a
  lower opening. The digit substitution \<open>r\<close> is not applied to the number.
\<close>

datatype classification = NoLabel | HighOpen | LowOpen

datatype fund_class = CloseFund | ETF | LOF

datatype line =
    GapLine string classification string
  | UpLine string string
  | DownLine string string
  | FetchError fund_class string
  | NotFound string

subsection \<open>Rendering with two decimals\<close>

definition digitChar :: "nat \<Rightarrow> char" where
  "digitChar d = ''0123456789'' ! (d mod 10)"

function digits :: "nat \<Rightarrow> string" where
  "digits n = (if n < 10 then [digitChar n] else digits (n div 10) @ [digitChar (n mod 10)])"
  by pat_completeness auto
termination
  by (relation "measure (\<lambda>n. n)") auto

text \<open>
  \<open>x.Text('f', 2)\<close>: the sign, then the exact decimal expansion of the binary value
  rounded at the second decimal, ties to even; an infinity is \<open>+Inf\<close> or \<open>-Inf\<close>.
\<close>

fun Text_f2 :: "bigfloat \<Rightarrow> string" where
  "Text_f2 (BZero n) = (if n then ''-'' else []) @ ''0.00''"
| "Text_f2 (BInf n) = (if n then ''-Inf'' else ''+Inf'')"
| "Text_f2 (BFin x) =
     (let h = nat (roundHalfEven (\<bar>x\<bar> * 100))
      in (if x < 0 then ''-'' else []) @ digits (h div 100) @ ''.'' @
         [digitChar (h div 10), digitChar h])"

section \<open>The alert state store\<close>

text \<open>
  \<open>GetLogData\<close> reads the clock and returns a pointer to the entry of the day, which
  it creates when absent. The day is a parameter here, the same for all the reads of
  one evaluation; the pointer is the returned entry together with its key in the
  returned map.
\<close>

definition newData :: LogData where
  "newData = \<lparr>InitPrice = False, UpIndex = 0, DownIndex = 0\<rparr>"

definition GetLogData :: "string \<Rightarrow> string \<Rightarrow> LogMap \<Rightarrow> LogData \<times> LogMap" where
  "GetLogData code today m =
     (let key = code @ today
      in case m key of
           Some data \<Rightarrow> (data, m)
         | None \<Rightarrow> (newData, m(key \<mapsto> newData)))"

section \<open>The rule evaluator\<close>

definition calculatePercentageChange :: "bigfloat \<Rightarrow> bigfloat \<Rightarrow> panic + bigfloat" where
  "calculatePercentageChange price1 price2 =
     (case Sub price1 price2 of
        Inl p \<Rightarrow> Inl p
      | Inr diff \<Rightarrow>
          (case Quo diff price1 of
             Inl p \<Rightarrow> Inl p
           | Inr percentageChange \<Rightarrow> Mul percentageChange NewFloat100))"

text \<open>
  \<open>IsInitPrice\<close>. The result is the panic, if any, the map and the accumulated lines.
\<close>

definition IsInitPrice ::
  "string \<Rightarrow> JSONData \<Rightarrow> LogMap \<Rightarrow> line list \<Rightarrow> panic option \<times> LogMap \<times> line list" where
  "IsInitPrice today dataItem m logStr =
     (case calculatePercentageChange (Open dataItem) (Settlement dataItem) of
        Inl p \<Rightarrow> (Some p, m, logStr)
      | Inr ratio \<Rightarrow>
          (let c = Cmp (Settlement dataItem) (Open dataItem);
               s = (if c = - 1 then HighOpen else if c = 0 then NoLabel else LowOpen);
               (d, m1) = GetLogData (Code dataItem) today m
           in if \<not> InitPrice d
              then (let (d2, m2) = GetLogData (Code dataItem) today m1
                    in (None, m2(Code dataItem @ today \<mapsto> d2\<lparr>InitPrice := True\<rparr>),
                        logStr @ [GapLine (Name dataItem) s (Text_f2 ratio)]))
              else (None, m1, logStr)))"

text \<open>
  The two branches of \<open>IsUpDownPrice\<close> run the same loop, one on \<open>UpIndex\<close> with the
  threshold \<open>Up\<close>, the other on \<open>DownIndex\<close> with \<open>Down\<close>.
\<close>

datatype direction = DirUp | DirDown

fun rungIndex :: "direction \<Rightarrow> LogData \<Rightarrow> int" where
  "rungIndex DirUp d = UpIndex d"
| "rungIndex DirDown d = DownIndex d"

fun setRungIndex :: "direction \<Rightarrow> int \<Rightarrow> LogData \<Rightarrow> LogData" where
  "setRungIndex DirUp i d = d\<lparr>UpIndex := i\<rparr>"
| "setRungIndex DirDown i d = d\<lparr>DownIndex := i\<rparr>"

fun threshold :: "direction \<Rightarrow> CodeRule \<Rightarrow> bigfloat option" where
  "threshold DirUp codeItem = Up codeItem"
| "threshold DirDown codeItem = Down codeItem"

text \<open>
  One turn of the loop \<open>for { index := IsFibonacciSequence(...); if index != ... { ... =
  index } else { break } }\<close>: the panic of the call, or the map and whether the loop
  goes on.
\<close>

definition ratchetStep ::
  "direction \<Rightarrow> string \<Rightarrow> CodeRule \<Rightarrow> JSONData \<Rightarrow> bigfloat \<Rightarrow> LogMap \<Rightarrow> (panic + bool) \<times> LogMap" where
  "ratchetStep dir today codeItem dataItem ratio m =
     (let (d, m1) = GetLogData (Code dataItem) today m
      in case IsFibonacciSequence ratio (threshold dir codeItem) fibonacciSequence
                (rungIndex dir d) of
           Inl p \<Rightarrow> (Inl p, m1)
         | Inr index \<Rightarrow>
             (let (d2, m2) = GetLogData (Code dataItem) today m1
              in if index \<noteq> rungIndex dir d2
                 then (let (d3, m3) = GetLogData (Code dataItem) today m2
                       in (Inr True, m3(Code dataItem @ today \<mapsto> setRungIndex dir index d3)))
                 else (Inr False, m2)))"

text \<open>The rung index stored under a key; an absent entry stands for the index 0.\<close>

definition storedIndex :: "direction \<Rightarrow> LogMap \<Rightarrow> string \<Rightarrow> int" where
  "storedIndex dir m key = (case m key of Some d \<Rightarrow> rungIndex dir d | None \<Rightarrow> 0)"

text \<open>
  The loop. It ends: every turn that goes on has read a rung inside the ladder and
  stored the next index, and the read at the length of the ladder panics.
\<close>

function ratchetLoop ::
  "direction \<Rightarrow> string \<Rightarrow> CodeRule \<Rightarrow> JSONData \<Rightarrow> bigfloat \<Rightarrow> LogMap \<Rightarrow> panic option \<times> LogMap" where
  "ratchetLoop dir today codeItem dataItem ratio m =
     (case ratchetStep dir today codeItem dataItem ratio m of
        (Inl p, m') \<Rightarrow> (Some p, m')
      | (Inr continue, m') \<Rightarrow>
          if continue then ratchetLoop dir today codeItem dataItem ratio m' else (None, m'))"
  by pat_completeness auto
termination
proof (relation "measure (\<lambda>(dir, today, codeItem, dataItem, ratio, m).
         nat (int (length fibonacciSequence) - storedIndex dir m (Code dataItem @ today)))",
       goal_cases)
  case 1
  show ?case by simp
next
  case (2 dir today codeItem dataItem ratio m x1 m' continue)
  then have st: "ratchetStep dir today codeItem dataItem ratio m = (Inr True, m')"
    by simp
  from st have
    "storedIndex dir m (Code dataItem @ today) < int (length fibonacciSequence) \<and>
     storedIndex dir m' (Code dataItem @ today) = storedIndex dir m (Code dataItem @ today) + 1"
    by (cases dir)
      (auto simp: ratchetStep_def GetLogData_def IsFibonacciSequence_def storedIndex_def
        newData_def Let_def split: option.splits if_splits sum.splits prod.splits)
  then show ?case by simp
qed

text \<open>
  One branch of the \<open>switch\<close> of \<open>IsUpDownPrice\<close>: the index \<open>i\<close> read before the
  loop, the loop, and the line appended when the index has changed.
\<close>

definition escalate ::
  "direction \<Rightarrow> string \<Rightarrow> CodeRule \<Rightarrow> JSONData \<Rightarrow> bigfloat \<Rightarrow> LogMap \<Rightarrow> line list \<Rightarrow>
     panic option \<times> LogMap \<times> line list" where
  "escalate dir today codeItem dataItem ratio m logStr =
     (let (d, m1) = GetLogData (Code dataItem) today m;
          i = rungIndex dir d
      in case ratchetLoop dir today codeItem dataItem ratio m1 of
           (Some p, m2) \<Rightarrow> (Some p, m2, logStr)
         | (None, m2) \<Rightarrow>
             (let (d', m3) = GetLogData (Code dataItem) today m2
              in if rungIndex dir d' \<noteq> i
                 then (None, m3,
                       logStr @ [(case dir of DirUp \<Rightarrow> UpLine | DirDown \<Rightarrow> DownLine)
                                   (Name dataItem) (Text_f2 ratio)])
                 else (None, m3, logStr)))"

definition IsUpDownPrice ::
  "string \<Rightarrow> CodeRule \<Rightarrow> JSONData \<Rightarrow> LogMap \<Rightarrow> line list \<Rightarrow> panic option \<times> LogMap \<times> line list" where
  "IsUpDownPrice today codeItem dataItem m logStr =
     (case calculatePercentageChange (Trade dataItem) (Open dataItem) of
        Inl p \<Rightarrow> (Some p, m, logStr)
      | Inr ratio \<Rightarrow>
          (let c = Cmp (Open dataItem) (Trade dataItem)
           in if c = - 1 then escalate DirUp today codeItem dataItem ratio m logStr
              else if c = 0 then (None, m, logStr)
              else escalate DirDown today codeItem dataItem ratio m logStr))"

section \<open>Rule configuration\<close>

text \<open>\<open>strings.Split(s, sep)\<close> for a separator of one byte.\<close>

fun split :: "char \<Rightarrow> string \<Rightarrow> string list" where
  "split sep [] = [[]]"
| "split sep (c # cs) =
     (if c = sep then [] # split sep cs
      else (case split sep cs of
              [] \<Rightarrow> [[c]]
            | part # parts \<Rightarrow> (c # part) # parts))"

text \<open>
  \<open>parseCodes\<close>. The parser of \<open>big.Float\<close> literals is a parameter,
  \<open>SetString s = None\<close> being the failure on which Go returns a nil pointer; the
  second result of \<open>SetString\<close> is discarded by the source.
\<close>

fun parseItems :: "(string \<Rightarrow> bigfloat option) \<Rightarrow> string list \<Rightarrow> CodeRule list" where
  "parseItems SetString [] = []"
| "parseItems SetString (item # items) =
     (let parts = split CHR ''-'' item
      in if length parts = 3
         then \<lparr>RuleCode = parts ! 0, Up = SetString (parts ! 1), Down = SetString (parts ! 2)\<rparr>
              # parseItems SetString items
         else parseItems SetString items)"

definition parseCodes :: "(string \<Rightarrow> bigfloat option) \<Rightarrow> string \<Rightarrow> CodeRule list" where
  "parseCodes SetString codes = parseItems SetString (split CHR '','' codes)"

text \<open>
  The plain decimal literals of \<open>SetString\<close>: an optional sign, digits, an optional
  point and digits, at least one digit in all, rounded to 64 bits. This is Go's result
  for a literal of at most 19 digits; base prefixes, exponents, underscores and the
  spellings of infinity, which Go also accepts, are not covered.
\<close>

definition isDigit :: "char \<Rightarrow> bool" where
  "isDigit c = (c \<in> set ''0123456789'')"

definition decimalValue :: "string \<Rightarrow> nat" where
  "decimalValue ds = foldl (\<lambda>acc c. 10 * acc + (of_char c - 48)) 0 ds"

definition decimalSetString :: "string \<Rightarrow> bigfloat option" where
  "decimalSetString s =
     (let (neg, r) = (case s of
                        [] \<Rightarrow> (False, s)
                      | c # t \<Rightarrow> if c = CHR ''-'' then (True, t)
                                 else if c = CHR ''+'' then (False, t) else (False, s));
          ip = takeWhile isDigit r;
          r1 = dropWhile isDigit r;
          (fp, r2) = (case r1 of
                        [] \<Rightarrow> ([], r1)
                      | c # t \<Rightarrow> if c = CHR ''.'' then (takeWhile isDigit t, dropWhile isDigit t)
                                 else ([], r1))
      in if r2 \<noteq> [] \<or> (ip = [] \<and> fp = []) then None
         else (let n = decimalValue (ip @ fp);
                   v = of_nat n / 10 ^ length fp
               in if n = 0 then Some (BZero neg)
                  else Some (BFin (round_prec 64 (if neg then - v else v)))))"

section \<open>The cycle\<close>

definition convertToMap :: "JSONData list \<Rightarrow> (string \<rightharpoonup> JSONData)" where
  "convertToMap data = fold (\<lambda>item resultMap. resultMap(Code item \<mapsto> item)) data Map.empty"

text \<open>
  The loop of \<open>Task\<close> over the rules. A panic of an evaluation ends the loop (and the
  process).
\<close>

fun evalRules ::
  "string \<Rightarrow> (string \<rightharpoonup> JSONData) \<Rightarrow> CodeRule list \<Rightarrow> LogMap \<Rightarrow> line list \<Rightarrow>
     panic option \<times> LogMap \<times> line list" where
  "evalRules today dataMap [] m logStr = (None, m, logStr)"
| "evalRules today dataMap (codeItem # codeArr) m logStr =
     (case dataMap (RuleCode codeItem) of
        Some item \<Rightarrow>
          (case IsInitPrice today item m logStr of
             (Some p, m1, logStr1) \<Rightarrow> (Some p, m1, logStr1)
           | (None, m1, logStr1) \<Rightarrow>
               (case IsUpDownPrice today codeItem item m1 logStr1 of
                  (Some p, m2, logStr2) \<Rightarrow> (Some p, m2, logStr2)
                | (None, m2, logStr2) \<Rightarrow> evalRules today dataMap codeArr m2 logStr2))
      | None \<Rightarrow> evalRules today dataMap codeArr m (logStr @ [NotFound (RuleCode codeItem)]))"

text \<open>
  \<open>Task\<close>. The data source is the parameter \<open>fetchFundData\<close>, which gives the quotes
  of a class or the text of its error.
\<close>

definition Task ::
  "(string \<Rightarrow> bigfloat option) \<Rightarrow> string \<Rightarrow> string \<Rightarrow> (fund_class \<Rightarrow> string + JSONData list) \<Rightarrow>
     LogMap \<Rightarrow> line list \<Rightarrow> panic option \<times> LogMap \<times> line list" where
  "Task SetString codes today fetchFundData m logStr =
     (let codeArr = parseCodes SetString codes
      in case fetchFundData ETF of
           Inl err \<Rightarrow> (None, m, logStr @ [FetchError ETF err])
         | Inr data1 \<Rightarrow>
             (case fetchFundData LOF of
                Inl err \<Rightarrow> (None, m, logStr @ [FetchError LOF err])
              | Inr data2 \<Rightarrow>
                  (let data = data1 @ data2;
                       dataMap = convertToMap data
                   in evalRules today dataMap codeArr m logStr)))"

subsection \<open>The process\<close>

text \<open>
  The process: the alert state, the lines written to the process log, and whether it
  still runs. \<open>log.Fatalf\<close> writes its line and exits with status 1; a panic of the
  task ends the process as well.
\<close>

datatype status = Running | Exited nat | Crashed panic

datatype log_entry = Println "line list" | Fatalf string

record process =
  alertState :: LogMap
  processLog :: "log_entry list"
  status :: status

text \<open>
  \<open>SendWx\<close>. The webhook is the parameter \<open>Do\<close>, which gives the error of the
  request, if any.
\<close>

definition SendWx :: "(line list \<Rightarrow> string option) \<Rightarrow> line list \<Rightarrow> process \<Rightarrow> process" where
  "SendWx Do text proc =
     (case Do text of
        Some err \<Rightarrow> proc\<lparr>processLog := processLog proc @ [Fatalf err], status := Exited 1\<rparr>
      | None \<Rightarrow> proc)"

definition PrintLog :: "(line list \<Rightarrow> string option) \<Rightarrow> line list \<Rightarrow> process \<Rightarrow> process" where
  "PrintLog Do msg proc = SendWx Do msg (proc\<lparr>processLog := processLog proc @ [Println msg]\<rparr>)"

text \<open>
  One tick of the timer in \<open>main\<close>: an empty \<open>logStr\<close>, the task, and \<open>PrintLog\<close>
  when \<open>logStr\<close> is not empty. A process that has ended takes no tick.
\<close>

record tick_input =
  today :: string
  fetchFundData :: "fund_class \<Rightarrow> string + JSONData list"
  Do :: "line list \<Rightarrow> string option"

definition tick ::
  "(string \<Rightarrow> bigfloat option) \<Rightarrow> string \<Rightarrow> tick_input \<Rightarrow> process \<Rightarrow> process" where
  "tick SetString codes inp proc =
     (if status proc \<noteq> Running then proc
      else case Task SetString codes (today inp) (fetchFundData inp) (alertState proc) [] of
             (Some p, m, logStr) \<Rightarrow> proc\<lparr>alertState := m, status := Crashed p\<rparr>
           | (None, m, logStr) \<Rightarrow>
               (let proc1 = proc\<lparr>alertState := m\<rparr>
                in if logStr \<noteq> [] then PrintLog (Do inp) logStr proc1 else proc1))"

fun ticks ::
  "(string \<Rightarrow> bigfloat option) \<Rightarrow> string \<Rightarrow> tick_input list \<Rightarrow> process \<Rightarrow> process" where
  "ticks SetString codes [] proc = proc"
| "ticks SetString codes (inp # inps) proc = ticks SetString codes inps (tick SetString codes inp proc)"

section \<open>Notions used in the statements\<close>

text \<open>
  Whether the gap line of a key has been sent, the order of two states of the store in
  which no flag is cleared and no rung index decreases, and the test
  \<open>math.Abs(change) >= currentThreshold\<close> of \<open>IsFibonacciSequence\<close>.
\<close>

definition notified :: "LogMap \<Rightarrow> string \<Rightarrow> bool" where
  "notified m key = (case m key of Some d \<Rightarrow> InitPrice d | None \<Rightarrow> False)"

definition ratchets :: "LogMap \<Rightarrow> LogMap \<Rightarrow> bool" where
  "ratchets m m' =
     (\<forall>key. (notified m key \<longrightarrow> notified m' key) \<and>
            storedIndex DirUp m key \<le> storedIndex DirUp m' key \<and>
            storedIndex DirDown m key \<le> storedIndex DirDown m' key)"

definition thresholdTest :: "bigfloat \<Rightarrow> bigfloat \<Rightarrow> int list \<Rightarrow> int \<Rightarrow> bool" where
  "thresholdTest ratio b fibSeq i =
     f64_ge (f64_abs (Float64 ratio)) (f64_mul (Float64 b) (float64_of_int (fibSeq ! nat i)))"

text \<open>
  The evaluations of a run, in the order in which the process makes them: the gap-open
  check of a quote on a day, or the escalation check of a rule and a quote on a day.
  \<open>gapLines key calls m\<close> counts the gap lines that the checks of the key
  \<open>key\<close> append when the calls are made one after the other from the store \<open>m\<close>
  (a panic ends the run).
\<close>

datatype call = Gap string JSONData | Move string CodeRule JSONData

fun runCall :: "call \<Rightarrow> LogMap \<Rightarrow> panic option \<times> LogMap \<times> line list" where
  "runCall (Gap day dataItem) m = IsInitPrice day dataItem m []"
| "runCall (Move day codeItem dataItem) m = IsUpDownPrice day codeItem dataItem m []"

fun gapOf :: "string \<Rightarrow> call \<Rightarrow> bool" where
  "gapOf key (Gap day dataItem) = (Code dataItem @ day = key)"
| "gapOf key (Move day codeItem dataItem) = False"

fun gapLines :: "string \<Rightarrow> call list \<Rightarrow> LogMap \<Rightarrow> nat" where
  "gapLines key [] m = 0"
| "gapLines key (c # cs) m =
     (case runCall c m of
        (p, m', ls) \<Rightarrow>
          (if gapOf key c then length ls else 0) +
          (case p of None \<Rightarrow> gapLines key cs m' | Some e \<Rightarrow> 0))"

text \<open>A quote with the fields that the evaluator reads, for the examples.\<close>

definition quote :: "string \<Rightarrow> string \<Rightarrow> bigfloat \<Rightarrow> bigfloat \<Rightarrow> bigfloat \<Rightarrow> JSONData" where
  "quote code name trade settlement open' =
     \<lparr>Symbol = [], Name = name, Trade = trade, Pricechange = BZero False,
      Changepercent = BZero False, Buy = BZero False, Sell = BZero False,
      Settlement = settlement, Open = open', High = BZero False, Low = BZero False,
      Volume = 0, Amount = 0, Code = code, Ticktime = []\<rparr>"

text \<open>
  A rule for the code \<open>X\<close> with the two thresholds as written in the configuration,
  and the process at its start.
\<close>

definition ruleX :: "string \<Rightarrow> string \<Rightarrow> CodeRule" where
  "ruleX up down = \<lparr>RuleCode = ''X'', Up = decimalSetString up, Down = decimalSetString down\<rparr>"

definition process0 :: process where
  "process0 = \<lparr>alertState = Map.empty, processLog = [], status = Running\<rparr>"

text \<open>
  Ticks for the examples, all on one day. In the first two the data source has no
  quote at all, and the delivery fails or succeeds. In the last two the second class
  has a quote of the code \<open>X\<close> that opened above the prior close, and the first class
  fails or is empty.
\<close>

definition tickSinkDown :: tick_input where
  "tickSinkDown =
     \<lparr>today = ''2024-01-02'', fetchFundData = (\<lambda>c. Inr []), Do = (\<lambda>msg. Some ''timeout'')\<rparr>"

definition tickSinkUp :: tick_input where
  "tickSinkUp = \<lparr>today = ''2024-01-02'', fetchFundData = (\<lambda>c. Inr []), Do = (\<lambda>msg. None)\<rparr>"

definition tickETFDown :: tick_input where
  "tickETFDown =
     \<lparr>today = ''2024-01-02'',
      fetchFundData = (\<lambda>c. if c = ETF then Inl ''timeout''
                          else Inr [quote ''X'' ''x'' (BFin 10) (BFin 8) (BFin 10)]),
      Do = (\<lambda>msg. None)\<rparr>"

definition tickETFEmpty :: tick_input where
  "tickETFEmpty =
     \<lparr>today = ''2024-01-02'',
      fetchFundData = (\<lambda>c. if c = ETF then Inr []
                          else Inr [quote ''X'' ''x'' (BFin 10) (BFin 8) (BFin 10)]),
      Do = (\<lambda>msg. None)\<rparr>"

section \<open>Properties of a single escalation test\<close>

lemma fibonacciSequence_eq:
  "fibonacciSequence =
     [1, 2, 3, 5, 8, 13, 21, 34, 55, 89, 144, 233, 377, 610, 987, 1597, 2584, 4181, 6765, 10946]"
  by code_simp

lemma length_fibonacciSequence: "length fibonacciSequence = 20"
  by (simp add: fibonacciSequence_eq)

lemma IsFibonacciSequence_Inr:
  "IsFibonacciSequence c b fs i = Inr j \<Longrightarrow> j = i \<or> j = i + 1"
  by (auto simp: IsFibonacciSequence_def Let_def split: option.splits if_splits)

lemma IsFibonacciSequence_Inr_bounds:
  "IsFibonacciSequence c b fs i = Inr j \<Longrightarrow> b \<noteq> None \<and> 0 \<le> i \<and> i < int (length fs)"
  by (auto simp: IsFibonacciSequence_def Let_def split: option.splits if_splits)

lemma IsFibonacciSequence_returns:
  "b \<noteq> None \<Longrightarrow> 0 \<le> i \<Longrightarrow> i < int (length fs) \<Longrightarrow> \<exists>j. IsFibonacciSequence c b fs i = Inr j"
  by (auto simp: IsFibonacciSequence_def Let_def split: option.splits)

lemma IsFibonacciSequence_Inl:
  "IsFibonacciSequence c b fs i = Inl p \<Longrightarrow>
     (b = None \<and> p = NilPointerDereference) \<or>
     (b \<noteq> None \<and> (i < 0 \<or> int (length fs) \<le> i) \<and> p = IndexOutOfRange i (length fs))"
  by (auto simp: IsFibonacciSequence_def Let_def split: option.splits if_splits)

text \<open>
  C10. A single call of \<open>IsFibonacciSequence\<close> advances the rung index by at most one:
  whenever it returns, it returns the given index or the given index plus one, and it
  does return for every non-nil threshold and every index inside the ladder. Otherwise
  it panics, on the nil threshold or on the read outside the ladder.
\<close>

theorem IsFibonacciSequence_at_most_one:
  "(\<forall>j. IsFibonacciSequence c b fs i = Inr j \<longrightarrow> j = i \<or> j = i + 1) \<and>
   (b \<noteq> None \<and> 0 \<le> i \<and> i < int (length fs) \<longrightarrow>
      IsFibonacciSequence c b fs i = Inr i \<or> IsFibonacciSequence c b fs i = Inr (i + 1)) \<and>
   (\<forall>p. IsFibonacciSequence c' b' fs' i' = Inl p \<longrightarrow>
      b' = None \<or> i' < 0 \<or> int (length fs') \<le> i')"
proof (intro conjI allI impI)
  fix j assume "IsFibonacciSequence c b fs i = Inr j"
  then show "j = i \<or> j = i + 1" by (rule IsFibonacciSequence_Inr)
next
  assume "b \<noteq> None \<and> 0 \<le> i \<and> i < int (length fs)"
  then obtain j where j: "IsFibonacciSequence c b fs i = Inr j"
    using IsFibonacciSequence_returns by blast
  with IsFibonacciSequence_Inr [OF j]
  show "IsFibonacciSequence c b fs i = Inr i \<or> IsFibonacciSequence c b fs i = Inr (i + 1)"
    by auto
next
  fix p assume "IsFibonacciSequence c' b' fs' i' = Inl p"
  from IsFibonacciSequence_Inl [OF this] show "b' = None \<or> i' < 0 \<or> int (length fs') \<le> i'"
    by auto
qed

section \<open>The store and the loop\<close>

lemma ratchets_refl: "ratchets m m"
  by (simp add: ratchets_def)

lemma ratchets_trans: "ratchets m1 m2 \<Longrightarrow> ratchets m2 m3 \<Longrightarrow> ratchets m1 m3"
  unfolding ratchets_def by (meson order_trans)

lemma GetLogData_cases:
  assumes "GetLogData code day m = (d, m1)"
  shows "(m (code @ day) = Some d \<and> m1 = m) \<or>
         (m (code @ day) = None \<and> d = newData \<and> m1 = m(code @ day \<mapsto> newData))"
  using assms by (auto simp: GetLogData_def Let_def split: option.splits)

lemma GetLogData_lookup: "GetLogData code day m = (d, m1) \<Longrightarrow> m1 (code @ day) = Some d"
  by (auto dest: GetLogData_cases)

lemma GetLogData_again: "GetLogData code day m = (d, m1) \<Longrightarrow> GetLogData code day m1 = (d, m1)"
  by (frule GetLogData_lookup) (simp add: GetLogData_def)

lemma GetLogData_storedIndex:
  "GetLogData code day m = (d, m1) \<Longrightarrow> storedIndex dir m1 key = storedIndex dir m key"
  by (cases dir) (auto dest!: GetLogData_cases simp: storedIndex_def newData_def)

lemma GetLogData_rungIndex:
  "GetLogData code day m = (d, m1) \<Longrightarrow> rungIndex dir d = storedIndex dir m (code @ day)"
  by (cases dir) (auto dest!: GetLogData_cases simp: storedIndex_def newData_def)

lemma GetLogData_notified:
  "GetLogData code day m = (d, m1) \<Longrightarrow> notified m1 key = notified m key"
  by (auto dest!: GetLogData_cases simp: notified_def newData_def split: if_splits)

lemma GetLogData_InitPrice:
  "GetLogData code day m = (d, m1) \<Longrightarrow> InitPrice d = notified m (code @ day)"
  by (auto dest!: GetLogData_cases simp: notified_def newData_def)

lemma GetLogData_ratchets: "GetLogData code day m = (d, m1) \<Longrightarrow> ratchets m m1"
  by (simp add: ratchets_def GetLogData_storedIndex GetLogData_notified)

lemma IsFibonacciSequence_Some:
  "IsFibonacciSequence c (Some b) fs i =
     (if i < 0 \<or> int (length fs) \<le> i then Inl (IndexOutOfRange i (length fs))
      else if thresholdTest c b fs i then Inr (i + 1) else Inr i)"
  by (simp add: IsFibonacciSequence_def thresholdTest_def Let_def)

lemma IsFibonacciSequence_None: "IsFibonacciSequence c None fs i = Inl NilPointerDereference"
  by (simp add: IsFibonacciSequence_def)

text \<open>One turn of the loop, case by case.\<close>

lemma ratchetStep_eq:
  assumes g: "GetLogData (Code dataItem) day m = (d, m1)"
  shows "ratchetStep dir day codeItem dataItem ratio m =
     (case IsFibonacciSequence ratio (threshold dir codeItem) fibonacciSequence
             (storedIndex dir m (Code dataItem @ day)) of
        Inl p \<Rightarrow> (Inl p, m1)
      | Inr index \<Rightarrow>
          if index \<noteq> storedIndex dir m (Code dataItem @ day)
          then (Inr True, m1(Code dataItem @ day \<mapsto> setRungIndex dir index d))
          else (Inr False, m1))"
  using g GetLogData_again [OF g] GetLogData_rungIndex [OF g, of dir]
  by (simp add: ratchetStep_def split: sum.splits)

lemma storedIndex_upd_same:
  "storedIndex dir (m(key \<mapsto> setRungIndex dir i d)) key = i"
  by (cases dir) (simp_all add: storedIndex_def)

lemma storedIndex_upd_other:
  "key' \<noteq> key \<Longrightarrow> storedIndex dir' (m(key \<mapsto> d')) key' = storedIndex dir' m key'"
  by (simp add: storedIndex_def)

lemma storedIndex_upd_other_dir:
  "m key = Some d \<Longrightarrow> dir' \<noteq> dir \<Longrightarrow>
     storedIndex dir' (m(key \<mapsto> setRungIndex dir i d)) key = storedIndex dir' m key"
  by (cases dir; cases dir') (simp_all add: storedIndex_def)

lemma notified_upd_rung:
  "m key = Some d \<Longrightarrow> notified (m(key \<mapsto> setRungIndex dir i d)) key' = notified m key'"
  by (cases dir) (simp_all add: notified_def)

lemma ratchets_upd_rung:
  assumes "m key = Some d" and "rungIndex dir d \<le> i"
  shows "ratchets m (m(key \<mapsto> setRungIndex dir i d))"
  unfolding ratchets_def
proof (intro allI conjI)
  fix key'
  show "notified m key' \<longrightarrow> notified (m(key \<mapsto> setRungIndex dir i d)) key'"
    using assms(1) by (simp add: notified_upd_rung)
  show "storedIndex DirUp m key' \<le> storedIndex DirUp (m(key \<mapsto> setRungIndex dir i d)) key'"
    using assms by (cases dir) (auto simp: storedIndex_def)
  show "storedIndex DirDown m key' \<le> storedIndex DirDown (m(key \<mapsto> setRungIndex dir i d)) key'"
    using assms by (cases dir) (auto simp: storedIndex_def)
qed

lemma ratchetStep_ratchets:
  assumes "ratchetStep dir day codeItem dataItem ratio m = (r, m')"
  shows "ratchets m m'"
proof -
  obtain d m1 where g: "GetLogData (Code dataItem) day m = (d, m1)"
    by (cases "GetLogData (Code dataItem) day m")
  note l = GetLogData_lookup [OF g] and ri = GetLogData_rungIndex [OF g, of dir]
  have "ratchets m1 m'"
  proof (cases "IsFibonacciSequence ratio (threshold dir codeItem) fibonacciSequence
             (storedIndex dir m (Code dataItem @ day))")
    case (Inl p)
    with assms ratchetStep_eq [OF g, of dir codeItem ratio] show ?thesis
      by (simp add: ratchets_refl)
  next
    case (Inr index)
    from IsFibonacciSequence_Inr [OF Inr] ri have "rungIndex dir d \<le> index" by auto
    with l have "ratchets m1 (m1(Code dataItem @ day \<mapsto> setRungIndex dir index d))"
      by (rule ratchets_upd_rung)
    with assms ratchetStep_eq [OF g, of dir codeItem ratio] Inr
    show ?thesis by (auto simp: ratchets_refl split: if_splits)
  qed
  with GetLogData_ratchets [OF g] show ?thesis by (rule ratchets_trans)
qed

lemma ratchetLoop_ratchets:
  "ratchetLoop dir day codeItem dataItem ratio m = (r, m') \<Longrightarrow> ratchets m m'"
proof (induction dir day codeItem dataItem ratio m rule: ratchetLoop.induct)
  case (1 dir day codeItem dataItem ratio m)
  obtain s m1 where st: "ratchetStep dir day codeItem dataItem ratio m = (s, m1)"
    by (cases "ratchetStep dir day codeItem dataItem ratio m")
  note r1 = ratchetStep_ratchets [OF st]
  show ?case
  proof (cases s)
    case (Inl p)
    with st "1.prems" r1 show ?thesis by (simp add: ratchetLoop.simps [of dir day codeItem dataItem ratio m])
  next
    case (Inr continue)
    show ?thesis
    proof (cases continue)
      case True
      with st Inr "1.prems" have "ratchetLoop dir day codeItem dataItem ratio m1 = (r, m')"
        by (simp add: ratchetLoop.simps [of dir day codeItem dataItem ratio m])
      from "1.IH" [OF st [symmetric] Inr True this] r1 show ?thesis
        by (blast intro: ratchets_trans)
    next
      case False
      with st Inr "1.prems" r1 show ?thesis
        by (simp add: ratchetLoop.simps [of dir day codeItem dataItem ratio m])
    qed
  qed
qed

section \<open>The evaluator never lowers the state\<close>


lemma escalate_ratchets:
  assumes "escalate dir day codeItem dataItem ratio m logStr = (r, m', logStr')"
  shows "ratchets m m'"
proof -
  obtain d m1 where g: "GetLogData (Code dataItem) day m = (d, m1)"
    by (cases "GetLogData (Code dataItem) day m")
  obtain r2 m2 where l: "ratchetLoop dir day codeItem dataItem ratio m1 = (r2, m2)"
    by (cases "ratchetLoop dir day codeItem dataItem ratio m1")
  obtain d' m3 where g': "GetLogData (Code dataItem) day m2 = (d', m3)"
    by (cases "GetLogData (Code dataItem) day m2")
  have "ratchets m m2"
    using GetLogData_ratchets [OF g] ratchetLoop_ratchets [OF l] by (rule ratchets_trans)
  moreover have "ratchets m2 m3" using g' by (rule GetLogData_ratchets)
  ultimately have "ratchets m m3" by (rule ratchets_trans)
  with \<open>ratchets m m2\<close> assms g l g' show ?thesis
    by (auto simp: escalate_def split: option.splits if_splits)
qed

lemma IsUpDownPrice_ratchets:
  assumes "IsUpDownPrice day codeItem dataItem m logStr = (r, m', logStr')"
  shows "ratchets m m'"
  using assms
  by (auto simp: IsUpDownPrice_def Let_def ratchets_refl split: sum.splits if_splits
      dest: escalate_ratchets)

lemma ratchets_upd_InitPrice:
  assumes "m key = Some d"
  shows "ratchets m (m(key \<mapsto> d\<lparr>InitPrice := True\<rparr>))"
  using assms by (auto simp: ratchets_def notified_def storedIndex_def)

lemma IsInitPrice_panic:
  "calculatePercentageChange (Open dataItem) (Settlement dataItem) = Inl p \<Longrightarrow>
     IsInitPrice day dataItem m logStr = (Some p, m, logStr)"
  by (simp add: IsInitPrice_def)

lemma IsInitPrice_eq:
  assumes "calculatePercentageChange (Open dataItem) (Settlement dataItem) = Inr ratio"
    and g: "GetLogData (Code dataItem) day m = (d, m1)"
  shows "IsInitPrice day dataItem m logStr =
     (if notified m (Code dataItem @ day) then (None, m1, logStr)
      else (None, m1(Code dataItem @ day \<mapsto> d\<lparr>InitPrice := True\<rparr>),
            logStr @ [GapLine (Name dataItem)
                        (if Cmp (Settlement dataItem) (Open dataItem) = - 1 then HighOpen
                         else if Cmp (Settlement dataItem) (Open dataItem) = 0 then NoLabel
                         else LowOpen)
                        (Text_f2 ratio)]))"
  using assms GetLogData_again [OF g] GetLogData_InitPrice [OF g]
  by (simp add: IsInitPrice_def Let_def)

lemma IsInitPrice_ratchets:
  assumes "IsInitPrice day dataItem m logStr = (r, m', logStr')"
  shows "ratchets m m'"
proof (cases "calculatePercentageChange (Open dataItem) (Settlement dataItem)")
  case (Inl p)
  with assms show ?thesis by (simp add: IsInitPrice_def ratchets_refl)
next
  case (Inr ratio)
  obtain d m1 where g: "GetLogData (Code dataItem) day m = (d, m1)"
    by (cases "GetLogData (Code dataItem) day m")
  have "ratchets m1 (m1(Code dataItem @ day \<mapsto> d\<lparr>InitPrice := True\<rparr>))"
    using GetLogData_lookup [OF g] by (rule ratchets_upd_InitPrice)
  with GetLogData_ratchets [OF g]
  have "ratchets m m1" and "ratchets m (m1(Code dataItem @ day \<mapsto> d\<lparr>InitPrice := True\<rparr>))"
    by (auto intro: ratchets_trans)
  with assms IsInitPrice_eq [OF Inr g, of logStr] show ?thesis
    by (auto split: if_splits)
qed

lemma evalRules_ratchets:
  "evalRules day dataMap codeArr m logStr = (r, m', logStr') \<Longrightarrow> ratchets m m'"
proof (induction codeArr arbitrary: m logStr)
  case Nil
  then show ?case by (simp add: ratchets_refl)
next
  case (Cons codeItem codeArr)
  show ?case
  proof (cases "dataMap (RuleCode codeItem)")
    case None
    with Cons show ?thesis by simp
  next
    case (Some item)
    obtain r1 m1 l1 where i: "IsInitPrice day item m logStr = (r1, m1, l1)"
      by (cases "IsInitPrice day item m logStr")
    obtain r2 m2 l2 where u: "IsUpDownPrice day codeItem item m1 l1 = (r2, m2, l2)"
      by (cases "IsUpDownPrice day codeItem item m1 l1")
    note a = IsInitPrice_ratchets [OF i]
    note b = ratchets_trans [OF a IsUpDownPrice_ratchets [OF u]]
    show ?thesis
    proof (cases r1)
      case (Some p)
      with Cons.prems \<open>dataMap (RuleCode codeItem) = Some item\<close> i a show ?thesis by simp
    next
      case None
      note r1 = this
      show ?thesis
      proof (cases r2)
        case (Some p)
        with Cons.prems \<open>dataMap (RuleCode codeItem) = Some item\<close> i u r1 b show ?thesis by simp
      next
        case None
        with Cons.prems \<open>dataMap (RuleCode codeItem) = Some item\<close> i u r1
        have "evalRules day dataMap codeArr m2 l2 = (r, m', logStr')" by simp
        from Cons.IH [OF this] b show ?thesis by (rule ratchets_trans [rotated])
      qed
    qed
  qed
qed

lemma Task_ratchets:
  "Task SetString codes day fetch m logStr = (r, m', logStr') \<Longrightarrow> ratchets m m'"
  by (auto simp: Task_def Let_def ratchets_refl split: sum.splits dest: evalRules_ratchets)

lemma tick_ratchets: "ratchets (alertState proc) (alertState (tick SetString codes inp proc))"
proof -
  obtain r m l where t:
    "Task SetString codes (today inp) (fetchFundData inp) (alertState proc) [] = (r, m, l)"
    by (cases "Task SetString codes (today inp) (fetchFundData inp) (alertState proc) []")
  from Task_ratchets [OF t] t show ?thesis
    by (auto simp: tick_def Let_def PrintLog_def SendWx_def ratchets_refl split: option.splits)
qed

lemma ticks_ratchets: "ratchets (alertState proc) (alertState (ticks SetString codes inps proc))"
proof (induction inps arbitrary: proc)
  case Nil
  show ?case by (simp add: ratchets_refl)
next
  case (Cons inp inps)
  from tick_ratchets Cons.IH show ?case
    by (simp, blast intro: ratchets_trans)
qed

text \<open>
  C1. The ratchet is monotonic: the index returned by \<open>IsFibonacciSequence\<close> is never
  below the index given, whatever the threshold and the ladder; the loop of
  \<open>IsUpDownPrice\<close> and \<open>IsUpDownPrice\<close> itself leave every stored rung index, of
  every key and of both directions, at least as high as it was; and so does every
  sequence of ticks of the process. The entry of another day has another key, the only
  way the index of an instrument starts again at 0.
\<close>

theorem ratchet_monotonic:
  "(\<forall>j. IsFibonacciSequence c b fs idx = Inr j \<longrightarrow> idx \<le> j) \<and>
   (\<forall>r m'. ratchetLoop dir day codeItem dataItem ratio m = (r, m') \<longrightarrow>
      storedIndex dir' m key \<le> storedIndex dir' m' key) \<and>
   (\<forall>r m' logStr'. IsUpDownPrice day codeItem dataItem m logStr = (r, m', logStr') \<longrightarrow>
      storedIndex dir' m key \<le> storedIndex dir' m' key) \<and>
   storedIndex dir' (alertState proc) key
     \<le> storedIndex dir' (alertState (ticks SetString codes inps proc)) key"
proof -
  have le: "\<And>m m'. ratchets m m' \<Longrightarrow> storedIndex dir' m key \<le> storedIndex dir' m' key"
    by (cases dir') (simp_all add: ratchets_def)
  have "\<forall>j. IsFibonacciSequence c b fs idx = Inr j \<longrightarrow> idx \<le> j"
    using IsFibonacciSequence_Inr by fastforce
  moreover have "\<forall>r m'. ratchetLoop dir day codeItem dataItem ratio m = (r, m') \<longrightarrow>
      storedIndex dir' m key \<le> storedIndex dir' m' key"
    using ratchetLoop_ratchets le by blast
  moreover have "\<forall>r m' logStr'. IsUpDownPrice day codeItem dataItem m logStr = (r, m', logStr') \<longrightarrow>
      storedIndex dir' m key \<le> storedIndex dir' m' key"
    using IsUpDownPrice_ratchets le by blast
  moreover have "storedIndex dir' (alertState proc) key
     \<le> storedIndex dir' (alertState (ticks SetString codes inps proc)) key"
    using ticks_ratchets le by blast
  ultimately show ?thesis by blast
qed

section \<open>The gap-open check\<close>

lemma Cmp_0_calculatePercentageChange:
  assumes "Cmp s op = 0" and "calculatePercentageChange op s = Inr ratio"
  shows "ratio = BZero (isneg op)"
  using assms
  by (cases s; cases op)
    (auto simp: Cmp_def calculatePercentageChange_def NewFloat100_def Let_def
      split: if_splits sum.splits)

lemma IsInitPrice_notified:
  assumes "IsInitPrice day dataItem m logStr = (r, m', logStr')"
    and "notified m (Code dataItem @ day)"
  shows "logStr' = logStr"
proof (cases "calculatePercentageChange (Open dataItem) (Settlement dataItem)")
  case (Inl p)
  with assms show ?thesis by (simp add: IsInitPrice_panic)
next
  case (Inr ratio)
  obtain d m1 where g: "GetLogData (Code dataItem) day m = (d, m1)"
    by (cases "GetLogData (Code dataItem) day m")
  from assms IsInitPrice_eq [OF Inr g, of logStr] show ?thesis by simp
qed

lemma notified_upd_InitPrice: "notified (m(key \<mapsto> d\<lparr>InitPrice := True\<rparr>)) key"
  by (simp add: notified_def)

lemma IsInitPrice_emits:
  assumes "IsInitPrice day dataItem m logStr = (r, m', logStr')"
  shows "logStr' = logStr \<or>
         (r = None \<and> notified m' (Code dataItem @ day) \<and> \<not> notified m (Code dataItem @ day) \<and>
          (\<exists>l. logStr' = logStr @ [l]))"
proof (cases "calculatePercentageChange (Open dataItem) (Settlement dataItem)")
  case (Inl p)
  with assms show ?thesis by (simp add: IsInitPrice_panic)
next
  case (Inr ratio)
  obtain d m1 where g: "GetLogData (Code dataItem) day m = (d, m1)"
    by (cases "GetLogData (Code dataItem) day m")
  from assms IsInitPrice_eq [OF Inr g, of logStr] show ?thesis
    by (auto simp: notified_upd_InitPrice split: if_splits)
qed

lemma ratchets_notified: "ratchets m m' \<Longrightarrow> notified m key \<Longrightarrow> notified m' key"
  by (simp add: ratchets_def)

lemma runCall_ratchets: "runCall c m = (p, m', ls) \<Longrightarrow> ratchets m m'"
  by (cases c) (auto dest: IsInitPrice_ratchets IsUpDownPrice_ratchets)

lemma gapLines_notified: "notified m key \<Longrightarrow> gapLines key calls m = 0"
proof (induction calls arbitrary: m)
  case Nil
  show ?case by simp
next
  case (Cons c cs)
  obtain p m' ls where r: "runCall c m = (p, m', ls)"
    by (cases "runCall c m")
  from runCall_ratchets [OF r] Cons.prems have n: "notified m' key"
    by (rule ratchets_notified)
  have "gapOf key c \<Longrightarrow> ls = []"
    using r Cons.prems by (cases c) (auto dest: IsInitPrice_notified)
  with r Cons.IH [OF n] show ?case
    by (simp split: option.splits)
qed

lemma gapLines_le_1: "gapLines key calls m \<le> 1"
proof (induction calls arbitrary: m)
  case Nil
  show ?case by simp
next
  case (Cons c cs)
  obtain p m' ls where r: "runCall c m = (p, m', ls)"
    by (cases "runCall c m")
  show ?case
  proof (cases "gapOf key c \<and> ls \<noteq> []")
    case True
    then obtain day dataItem where c: "c = Gap day dataItem" and k: "Code dataItem @ day = key"
      by (cases c) auto
    from r c have "IsInitPrice day dataItem m [] = (p, m', ls)" by simp
    from IsInitPrice_emits [OF this] True k
    have "notified m' key" and "length ls = 1" by auto
    with r gapLines_notified [of m' key cs] show ?thesis
      by (simp split: option.splits)
  next
    case False
    with r Cons.IH [of m'] show ?thesis
      by (auto split: option.splits)
  qed
qed

text \<open>
  C7. The gap-open check sends its line at most once for a key (the code followed by
  the day): a call of \<open>IsInitPrice\<close> appends at most one line, and when it appends
  one the flag of its key was not set and is set afterwards; no sequence of ticks of the
  process clears a flag; so, however many checks are made, of whatever instruments and
  days and in whatever order, at most one gap line is sent for the key, and none once
  its flag is set.
\<close>

theorem gap_line_at_most_once:
  "(\<forall>r m' logStr'. IsInitPrice day dataItem m logStr = (r, m', logStr') \<longrightarrow>
      logStr' = logStr \<or>
      (\<not> notified m (Code dataItem @ day) \<and> notified m' (Code dataItem @ day) \<and>
       length logStr' = length logStr + 1)) \<and>
   (notified (alertState proc) key \<longrightarrow>
      notified (alertState (ticks SetString codes inps proc)) key) \<and>
   gapLines key calls m1 \<le> 1 \<and>
   (notified m2 key \<longrightarrow> gapLines key calls m2 = 0)"
proof (intro conjI allI impI)
  fix r m' logStr'
  assume "IsInitPrice day dataItem m logStr = (r, m', logStr')"
  from IsInitPrice_emits [OF this]
  show "logStr' = logStr \<or>
      (\<not> notified m (Code dataItem @ day) \<and> notified m' (Code dataItem @ day) \<and>
       length logStr' = length logStr + 1)"
    by auto
next
  assume "notified (alertState proc) key"
  with ticks_ratchets show "notified (alertState (ticks SetString codes inps proc)) key"
    by (rule ratchets_notified)
next
  show "gapLines key calls m1 \<le> 1" by (rule gapLines_le_1)
next
  assume "notified m2 key"
  then show "gapLines key calls m2 = 0" by (rule gapLines_notified)
qed

text \<open>
  C3 as amended. When the prior close equals the opening price and the percentage is
  computed, no label is produced and the percentage is a zero; the gap line is still
  appended, with the empty label, when the flag of the key is not set, and the flag is
  set then; nothing is appended when the flag is set.
\<close>

theorem IsInitPrice_equal_prices:
  assumes "Cmp (Settlement dataItem) (Open dataItem) = 0"
    and "calculatePercentageChange (Open dataItem) (Settlement dataItem) = Inr ratio"
  shows "\<exists>m'. IsInitPrice day dataItem m logStr =
            (None, m',
             if notified m (Code dataItem @ day) then logStr
             else logStr @ [GapLine (Name dataItem) NoLabel
                              (Text_f2 (BZero (isneg (Open dataItem))))]) \<and>
          notified m' (Code dataItem @ day)"
proof -
  obtain d m1 where g: "GetLogData (Code dataItem) day m = (d, m1)"
    by (cases "GetLogData (Code dataItem) day m")
  from Cmp_0_calculatePercentageChange [OF assms]
  have z: "ratio = BZero (isneg (Open dataItem))" .
  show ?thesis
  proof (cases "notified m (Code dataItem @ day)")
    case True
    with GetLogData_notified [OF g] have "notified m1 (Code dataItem @ day)" by simp
    with True IsInitPrice_eq [OF assms(2) g, of logStr] show ?thesis by simp
  next
    case False
    with IsInitPrice_eq [OF assms(2) g, of logStr] assms(1) z show ?thesis
      by (simp add: notified_upd_InitPrice)
  qed
qed

section \<open>The cycle and the process\<close>

lemma Task_ETF_error:
  "fetch ETF = Inl err \<Longrightarrow>
     Task SetString codes day fetch m logStr = (None, m, logStr @ [FetchError ETF err])"
  by (simp add: Task_def)

lemma Task_LOF_error:
  "fetch ETF = Inr data1 \<Longrightarrow> fetch LOF = Inl err \<Longrightarrow>
     Task SetString codes day fetch m logStr = (None, m, logStr @ [FetchError LOF err])"
  by (simp add: Task_def)

lemma tick_sends:
  assumes "status proc = Running"
    and "Task SetString codes (today inp) (fetchFundData inp) (alertState proc) [] = (None, m, logStr)"
    and "logStr \<noteq> []"
  shows "tick SetString codes inp proc =
           (case Do inp logStr of
              None \<Rightarrow> proc\<lparr>alertState := m, processLog := processLog proc @ [Println logStr]\<rparr>
            | Some err \<Rightarrow>
                proc\<lparr>alertState := m,
                     processLog := processLog proc @ [Println logStr, Fatalf err],
                     status := Exited 1\<rparr>)"
  using assms by (simp add: tick_def PrintLog_def SendWx_def Let_def split: option.splits)

lemma ticks_ended: "status proc \<noteq> Running \<Longrightarrow> ticks SetString codes inps proc = proc"
  by (induction inps) (simp_all add: tick_def)

text \<open>
  C4 as amended. A failure of the delivery is written to the process log, after the
  message itself, and ends the process with status 1: the state computed by the cycle
  is the state at the exit, and no later tick changes anything.
\<close>

theorem delivery_failure_ends_process:
  assumes "status proc = Running"
    and "Task SetString codes (today inp) (fetchFundData inp) (alertState proc) [] = (None, m, logStr)"
    and "logStr \<noteq> []"
    and "Do inp logStr = Some err"
  shows "tick SetString codes inp proc =
           proc\<lparr>alertState := m,
                processLog := processLog proc @ [Println logStr, Fatalf err],
                status := Exited 1\<rparr> \<and>
         ticks SetString codes inps (tick SetString codes inp proc) = tick SetString codes inp proc"
proof -
  from tick_sends [OF assms(1-3)] assms(4)
  have t: "tick SetString codes inp proc =
           proc\<lparr>alertState := m,
                processLog := processLog proc @ [Println logStr, Fatalf err],
                status := Exited 1\<rparr>"
    by simp
  then have "status (tick SetString codes inp proc) \<noteq> Running" by simp
  from t ticks_ended [OF this] show ?thesis by simp
qed

text \<open>
  C5 as amended. When the data source fails for the first class, or for the second
  after the first has succeeded, the failure is appended to the output of the cycle and
  the task returns at once: the store is unchanged and no rule is evaluated, whatever
  the quotes of the other class are. The cycle completes: with a delivery that
  succeeds, the process logs the failure and goes on running.
\<close>

theorem fetch_failure_ends_task:
  "(fetch1 ETF = Inl err1 \<longrightarrow>
      Task SetString codes day fetch1 m logStr = (None, m, logStr @ [FetchError ETF err1])) \<and>
   (fetch2 ETF = Inr data1 \<and> fetch2 LOF = Inl err2 \<longrightarrow>
      Task SetString codes day fetch2 m logStr = (None, m, logStr @ [FetchError LOF err2])) \<and>
   (status proc = Running \<and> fetchFundData inp ETF = Inl err \<and>
    Do inp [FetchError ETF err] = None \<longrightarrow>
      tick SetString codes inp proc =
        proc\<lparr>processLog := processLog proc @ [Println [FetchError ETF err]]\<rparr>)"
proof (intro conjI impI)
  assume "fetch1 ETF = Inl err1"
  then show "Task SetString codes day fetch1 m logStr = (None, m, logStr @ [FetchError ETF err1])"
    by (rule Task_ETF_error)
next
  assume "fetch2 ETF = Inr data1 \<and> fetch2 LOF = Inl err2"
  then show "Task SetString codes day fetch2 m logStr = (None, m, logStr @ [FetchError LOF err2])"
    by (simp add: Task_LOF_error)
next
  assume a: "status proc = Running \<and> fetchFundData inp ETF = Inl err \<and>
    Do inp [FetchError ETF err] = None"
  then have "Task SetString codes (today inp) (fetchFundData inp) (alertState proc) [] =
      (None, alertState proc, [FetchError ETF err])"
    by (simp add: Task_ETF_error)
  from tick_sends [OF _ this] a
  show "tick SetString codes inp proc =
        proc\<lparr>processLog := processLog proc @ [Println [FetchError ETF err]]\<rparr>"
    by simp
qed

section \<open>Loading the rules\<close>

lemma parseItems_eq:
  "parseItems SetString items =
     map (\<lambda>item. \<lparr>RuleCode = split CHR ''-'' item ! 0,
                  Up = SetString (split CHR ''-'' item ! 1),
                  Down = SetString (split CHR ''-'' item ! 2)\<rparr>)
       (filter (\<lambda>item. length (split CHR ''-'' item) = 3) items)"
  by (induction items) (simp_all add: Let_def)

text \<open>
  C9 as amended. The rules loaded are those of the entries with exactly three fields, in
  their order; an entry with another number of fields is dropped silently. The
  thresholds of a rule are the results of the parser on the second and the third
  field: a threshold that does not parse leaves a nil pointer in the rule, and the
  entry is kept.
\<close>

theorem parseCodes_three_fields:
  "parseCodes SetString codes =
     map (\<lambda>item. \<lparr>RuleCode = split CHR ''-'' item ! 0,
                  Up = SetString (split CHR ''-'' item ! 1),
                  Down = SetString (split CHR ''-'' item ! 2)\<rparr>)
       (filter (\<lambda>item. length (split CHR ''-'' item) = 3) (split CHR '','' codes))"
  by (simp add: parseCodes_def parseItems_eq)

section \<open>Where the loop stops\<close>

lemma ratchetLoop_unfold:
  "ratchetStep dir day codeItem dataItem ratio m = (s, m1) \<Longrightarrow>
     ratchetLoop dir day codeItem dataItem ratio m =
       (case s of
          Inl p \<Rightarrow> (Some p, m1)
        | Inr continue \<Rightarrow>
            if continue then ratchetLoop dir day codeItem dataItem ratio m1 else (None, m1))"
  by (simp add: ratchetLoop.simps [of dir day codeItem dataItem ratio m])

text \<open>One turn of the loop for a threshold that is not nil.\<close>

lemma ratchetStep_Some:
  assumes t: "threshold dir codeItem = Some b"
  shows "\<exists>m1 d. GetLogData (Code dataItem) day m = (d, m1) \<and>
     ratchetStep dir day codeItem dataItem ratio m =
       (let i = storedIndex dir m (Code dataItem @ day)
        in if i < 0 \<or> int (length fibonacciSequence) \<le> i
           then (Inl (IndexOutOfRange i (length fibonacciSequence)), m1)
           else if thresholdTest ratio b fibonacciSequence i
                then (Inr True, m1(Code dataItem @ day \<mapsto> setRungIndex dir (i + 1) d))
                else (Inr False, m1))"
proof -
  obtain d m1 where g: "GetLogData (Code dataItem) day m = (d, m1)"
    by (cases "GetLogData (Code dataItem) day m")
  from ratchetStep_eq [OF g, of dir codeItem ratio] t g show ?thesis
    by (simp add: IsFibonacciSequence_Some Let_def)
qed

lemma ratchetStep_None:
  assumes t: "threshold dir codeItem = None"
  shows "\<exists>m1. ratchetStep dir day codeItem dataItem ratio m = (Inl NilPointerDereference, m1)"
proof -
  obtain d m1 where g: "GetLogData (Code dataItem) day m = (d, m1)"
    by (cases "GetLogData (Code dataItem) day m")
  from ratchetStep_eq [OF g, of dir codeItem ratio] t show ?thesis
    by (simp add: IsFibonacciSequence_None)
qed

text \<open>The loop returns only at an index inside the ladder at which the test fails.\<close>

lemma ratchetLoop_returns:
  "ratchetLoop dir day codeItem dataItem ratio m = (None, m') \<Longrightarrow>
     \<exists>b. threshold dir codeItem = Some b \<and>
         0 \<le> storedIndex dir m' (Code dataItem @ day) \<and>
         storedIndex dir m' (Code dataItem @ day) < int (length fibonacciSequence) \<and>
         \<not> thresholdTest ratio b fibonacciSequence (storedIndex dir m' (Code dataItem @ day))"
proof (induction dir day codeItem dataItem ratio m rule: ratchetLoop.induct)
  case (1 dir day codeItem dataItem ratio m)
  show ?case
  proof (cases "threshold dir codeItem")
    case None
    from ratchetStep_None [OF None, of day dataItem ratio m] obtain m1 where
      "ratchetStep dir day codeItem dataItem ratio m = (Inl NilPointerDereference, m1)" ..
    from ratchetLoop_unfold [OF this] "1.prems" show ?thesis by simp
  next
    case (Some b)
    from ratchetStep_Some [OF Some, of dataItem day m ratio] obtain m1 d where
      g: "GetLogData (Code dataItem) day m = (d, m1)" and
      st: "ratchetStep dir day codeItem dataItem ratio m =
       (let i = storedIndex dir m (Code dataItem @ day)
        in if i < 0 \<or> int (length fibonacciSequence) \<le> i
           then (Inl (IndexOutOfRange i (length fibonacciSequence)), m1)
           else if thresholdTest ratio b fibonacciSequence i
                then (Inr True, m1(Code dataItem @ day \<mapsto> setRungIndex dir (i + 1) d))
                else (Inr False, m1))"
      by blast
    let ?i = "storedIndex dir m (Code dataItem @ day)"
    show ?thesis
    proof (cases "?i < 0 \<or> int (length fibonacciSequence) \<le> ?i")
      case True
      with st have "ratchetStep dir day codeItem dataItem ratio m =
          (Inl (IndexOutOfRange ?i (length fibonacciSequence)), m1)"
        by (simp add: Let_def)
      from ratchetLoop_unfold [OF this] "1.prems" show ?thesis by simp
    next
      case False
      note inside = this
      show ?thesis
      proof (cases "thresholdTest ratio b fibonacciSequence ?i")
        case True
        with st inside have s: "ratchetStep dir day codeItem dataItem ratio m =
            (Inr True, m1(Code dataItem @ day \<mapsto> setRungIndex dir (?i + 1) d))"
          by (simp add: Let_def)
        from ratchetLoop_unfold [OF s] "1.prems"
        have "ratchetLoop dir day codeItem dataItem ratio
                (m1(Code dataItem @ day \<mapsto> setRungIndex dir (?i + 1) d)) = (None, m')"
          by simp
        from "1.IH" [OF s [symmetric] refl TrueI this] Some show ?thesis by simp
      next
        case False
        with st inside have s: "ratchetStep dir day codeItem dataItem ratio m = (Inr False, m1)"
          by (simp add: Let_def)
        from ratchetLoop_unfold [OF s] "1.prems" have "m' = m1" by simp
        with GetLogData_storedIndex [OF g, of dir "Code dataItem @ day"] inside False Some
        show ?thesis by simp
      qed
    qed
  qed
qed

text \<open>
  From an index inside the ladder, with the test true up to an index at which it fails,
  the loop returns with that index stored.
\<close>

lemma ratchetLoop_stops:
  assumes t: "threshold dir codeItem = Some b"
    and "0 \<le> storedIndex dir m (Code dataItem @ day)"
    and "storedIndex dir m (Code dataItem @ day) \<le> j"
    and "j < int (length fibonacciSequence)"
    and "\<forall>k. storedIndex dir m (Code dataItem @ day) \<le> k \<and> k < j \<longrightarrow>
           thresholdTest ratio b fibonacciSequence k"
    and "\<not> thresholdTest ratio b fibonacciSequence j"
  shows "\<exists>m'. ratchetLoop dir day codeItem dataItem ratio m = (None, m') \<and>
              storedIndex dir m' (Code dataItem @ day) = j"
  using assms
proof (induction dir day codeItem dataItem ratio m rule: ratchetLoop.induct)
  case (1 dir day codeItem dataItem ratio m)
  let ?i = "storedIndex dir m (Code dataItem @ day)"
  from ratchetStep_Some [OF "1.prems"(1), of dataItem day m ratio] obtain m1 d where
    g: "GetLogData (Code dataItem) day m = (d, m1)" and
    st: "ratchetStep dir day codeItem dataItem ratio m =
     (let i = storedIndex dir m (Code dataItem @ day)
      in if i < 0 \<or> int (length fibonacciSequence) \<le> i
         then (Inl (IndexOutOfRange i (length fibonacciSequence)), m1)
         else if thresholdTest ratio b fibonacciSequence i
              then (Inr True, m1(Code dataItem @ day \<mapsto> setRungIndex dir (i + 1) d))
              else (Inr False, m1))"
    by blast
  from "1.prems" have inside: "\<not> (?i < 0 \<or> int (length fibonacciSequence) \<le> ?i)" by simp
  show ?case
  proof (cases "?i = j")
    case True
    with st inside "1.prems"(6) have s: "ratchetStep dir day codeItem dataItem ratio m = (Inr False, m1)"
      by (simp add: Let_def)
    from ratchetLoop_unfold [OF s] GetLogData_storedIndex [OF g, of dir "Code dataItem @ day"] True
    show ?thesis by simp
  next
    case False
    with "1.prems" have lt: "?i < j" by simp
    with "1.prems"(5) have "thresholdTest ratio b fibonacciSequence ?i" by simp
    with st inside have s: "ratchetStep dir day codeItem dataItem ratio m =
        (Inr True, m1(Code dataItem @ day \<mapsto> setRungIndex dir (?i + 1) d))"
      by (simp add: Let_def)
    let ?m2 = "m1(Code dataItem @ day \<mapsto> setRungIndex dir (?i + 1) d)"
    have i2: "storedIndex dir ?m2 (Code dataItem @ day) = ?i + 1"
      by (rule storedIndex_upd_same)
    have "\<exists>m'. ratchetLoop dir day codeItem dataItem ratio ?m2 = (None, m') \<and>
              storedIndex dir m' (Code dataItem @ day) = j"
    proof (rule "1.IH" [OF s [symmetric] refl TrueI "1.prems"(1)])
      show "0 \<le> storedIndex dir ?m2 (Code dataItem @ day)" using i2 "1.prems"(2) by simp
      show "storedIndex dir ?m2 (Code dataItem @ day) \<le> j" using i2 lt by simp
      show "j < int (length fibonacciSequence)" by (rule "1.prems"(4))
      show "\<forall>k. storedIndex dir ?m2 (Code dataItem @ day) \<le> k \<and> k < j \<longrightarrow>
           thresholdTest ratio b fibonacciSequence k"
        using i2 "1.prems"(5) by simp
      show "\<not> thresholdTest ratio b fibonacciSequence j" by (rule "1.prems"(6))
    qed
    with ratchetLoop_unfold [OF s] show ?thesis by simp
  qed
qed

text \<open>
  With the test true at every rung from the stored index on, the loop runs off the
  ladder: it panics on the read at the length of the ladder, which is then the index
  stored.
\<close>

lemma ratchetLoop_exhausts:
  assumes t: "threshold dir codeItem = Some b"
    and "0 \<le> storedIndex dir m (Code dataItem @ day)"
    and "storedIndex dir m (Code dataItem @ day) \<le> int (length fibonacciSequence)"
    and "\<forall>k. storedIndex dir m (Code dataItem @ day) \<le> k \<and> k < int (length fibonacciSequence) \<longrightarrow>
           thresholdTest ratio b fibonacciSequence k"
  shows "\<exists>m'. ratchetLoop dir day codeItem dataItem ratio m =
                (Some (IndexOutOfRange (int (length fibonacciSequence)) (length fibonacciSequence)), m') \<and>
              storedIndex dir m' (Code dataItem @ day) = int (length fibonacciSequence)"
  using assms
proof (induction dir day codeItem dataItem ratio m rule: ratchetLoop.induct)
  case (1 dir day codeItem dataItem ratio m)
  let ?i = "storedIndex dir m (Code dataItem @ day)"
  let ?n = "int (length fibonacciSequence)"
  from ratchetStep_Some [OF "1.prems"(1), of dataItem day m ratio] obtain m1 d where
    g: "GetLogData (Code dataItem) day m = (d, m1)" and
    st: "ratchetStep dir day codeItem dataItem ratio m =
     (let i = storedIndex dir m (Code dataItem @ day)
      in if i < 0 \<or> int (length fibonacciSequence) \<le> i
         then (Inl (IndexOutOfRange i (length fibonacciSequence)), m1)
         else if thresholdTest ratio b fibonacciSequence i
              then (Inr True, m1(Code dataItem @ day \<mapsto> setRungIndex dir (i + 1) d))
              else (Inr False, m1))"
    by blast
  show ?case
  proof (cases "?i = ?n")
    case True
    with st have s: "ratchetStep dir day codeItem dataItem ratio m =
        (Inl (IndexOutOfRange ?n (length fibonacciSequence)), m1)"
      by (simp add: Let_def)
    from ratchetLoop_unfold [OF s] GetLogData_storedIndex [OF g, of dir "Code dataItem @ day"] True
    show ?thesis by simp
  next
    case False
    with "1.prems" have lt: "?i < ?n" by simp
    with "1.prems"(4) have "thresholdTest ratio b fibonacciSequence ?i" by simp
    with st lt "1.prems"(2) have s: "ratchetStep dir day codeItem dataItem ratio m =
        (Inr True, m1(Code dataItem @ day \<mapsto> setRungIndex dir (?i + 1) d))"
      by (simp add: Let_def)
    let ?m2 = "m1(Code dataItem @ day \<mapsto> setRungIndex dir (?i + 1) d)"
    have i2: "storedIndex dir ?m2 (Code dataItem @ day) = ?i + 1"
      by (rule storedIndex_upd_same)
    have "\<exists>m'. ratchetLoop dir day codeItem dataItem ratio ?m2 =
                (Some (IndexOutOfRange ?n (length fibonacciSequence)), m') \<and>
              storedIndex dir m' (Code dataItem @ day) = ?n"
    proof (rule "1.IH" [OF s [symmetric] refl TrueI "1.prems"(1)])
      show "0 \<le> storedIndex dir ?m2 (Code dataItem @ day)" using i2 "1.prems"(2) by simp
      show "storedIndex dir ?m2 (Code dataItem @ day) \<le> ?n" using i2 lt by simp
      show "\<forall>k. storedIndex dir ?m2 (Code dataItem @ day) \<le> k \<and> k < ?n \<longrightarrow>
           thresholdTest ratio b fibonacciSequence k"
        using i2 "1.prems"(4) by simp
    qed
    with ratchetLoop_unfold [OF s] show ?thesis by simp
  qed
qed

lemma roundF64_not_NaN: "roundF64 x \<noteq> F64NaN"
  by (simp add: roundF64_def Let_def)

lemma f64_ge_Inf: "y \<noteq> F64NaN \<Longrightarrow> f64_ge (F64Inf False) y"
  by (cases y) simp_all

text \<open>An infinite change passes the test of every rung, for a finite non-zero base.\<close>

lemma thresholdTest_Inf:
  assumes "Float64 b = F64 r" and "r \<noteq> 0"
  shows "thresholdTest (BInf s) b fs k"
proof -
  have "f64_mul (F64 r) (float64_of_int (fs ! nat k)) \<noteq> F64NaN"
  proof (cases "float64_of_int (fs ! nat k)")
    case (F64 z)
    then show ?thesis by (simp add: roundF64_not_NaN)
  next
    case (F64Inf n)
    with assms(2) show ?thesis by simp
  next
    case F64NaN
    then show ?thesis by (simp add: float64_of_int_def roundF64_not_NaN)
  qed
  with assms(1) show ?thesis by (simp add: thresholdTest_def f64_ge_Inf)
qed

lemma Float64_1: "Float64 (BFin 1) = F64 1"
  by code_simp

text \<open>
  C8. The ladder has 20 rungs. For an index from 0 to 19 the read of
  \<open>IsFibonacciSequence\<close> is inside the ladder and the call returns; for an index of
  20 or more nothing checks the bound and the call panics on the read. The loop of
  \<open>IsUpDownPrice\<close> returns only at an index below 20 at which the threshold test
  fails; when the test holds at every rung from the stored index on, the loop runs off
  the ladder and panics at the index 20.
\<close>

theorem ladder_bounds:
  "length fibonacciSequence = 20 \<and>
   (0 \<le> i \<and> i < 20 \<longrightarrow>
      IsFibonacciSequence c (Some b) fibonacciSequence i = Inr i \<or>
      IsFibonacciSequence c (Some b) fibonacciSequence i = Inr (i + 1)) \<and>
   (20 \<le> i' \<longrightarrow>
      IsFibonacciSequence c (Some b) fibonacciSequence i' = Inl (IndexOutOfRange i' 20)) \<and>
   (\<forall>m'. ratchetLoop dir day codeItem dataItem ratio m = (None, m') \<longrightarrow>
      (\<exists>b'. threshold dir codeItem = Some b' \<and>
            storedIndex dir m' (Code dataItem @ day) < 20 \<and>
            \<not> thresholdTest ratio b' fibonacciSequence (storedIndex dir m' (Code dataItem @ day)))) \<and>
   (threshold dir2 codeItem2 = Some b2 \<and>
    0 \<le> storedIndex dir2 m2 (Code dataItem2 @ day2) \<and>
    storedIndex dir2 m2 (Code dataItem2 @ day2) \<le> 20 \<and>
    (\<forall>k. storedIndex dir2 m2 (Code dataItem2 @ day2) \<le> k \<and> k < 20 \<longrightarrow>
         thresholdTest ratio2 b2 fibonacciSequence k) \<longrightarrow>
      (\<exists>m'. ratchetLoop dir2 day2 codeItem2 dataItem2 ratio2 m2 =
              (Some (IndexOutOfRange 20 20), m') \<and>
            storedIndex dir2 m' (Code dataItem2 @ day2) = 20))"
proof (intro conjI impI allI)
  show "length fibonacciSequence = 20" by (rule length_fibonacciSequence)
next
  assume "0 \<le> i \<and> i < 20"
  then show "IsFibonacciSequence c (Some b) fibonacciSequence i = Inr i \<or>
      IsFibonacciSequence c (Some b) fibonacciSequence i = Inr (i + 1)"
    by (simp add: IsFibonacciSequence_Some length_fibonacciSequence)
next
  assume "20 \<le> i'"
  then show "IsFibonacciSequence c (Some b) fibonacciSequence i' = Inl (IndexOutOfRange i' 20)"
    by (simp add: IsFibonacciSequence_Some length_fibonacciSequence)
next
  fix m'
  assume "ratchetLoop dir day codeItem dataItem ratio m = (None, m')"
  from ratchetLoop_returns [OF this]
  show "\<exists>b'. threshold dir codeItem = Some b' \<and>
            storedIndex dir m' (Code dataItem @ day) < 20 \<and>
            \<not> thresholdTest ratio b' fibonacciSequence (storedIndex dir m' (Code dataItem @ day))"
    by (auto simp: length_fibonacciSequence)
next
  assume a: "threshold dir2 codeItem2 = Some b2 \<and>
    0 \<le> storedIndex dir2 m2 (Code dataItem2 @ day2) \<and>
    storedIndex dir2 m2 (Code dataItem2 @ day2) \<le> 20 \<and>
    (\<forall>k. storedIndex dir2 m2 (Code dataItem2 @ day2) \<le> k \<and> k < 20 \<longrightarrow>
         thresholdTest ratio2 b2 fibonacciSequence k)"
  have "\<exists>m'. ratchetLoop dir2 day2 codeItem2 dataItem2 ratio2 m2 =
                (Some (IndexOutOfRange (int (length fibonacciSequence)) (length fibonacciSequence)), m') \<and>
              storedIndex dir2 m' (Code dataItem2 @ day2) = int (length fibonacciSequence)"
    by (rule ratchetLoop_exhausts [of dir2 codeItem2 b2])
      (use a in \<open>simp_all add: length_fibonacciSequence\<close>)
  then show "\<exists>m'. ratchetLoop dir2 day2 codeItem2 dataItem2 ratio2 m2 =
              (Some (IndexOutOfRange 20 20), m') \<and>
            storedIndex dir2 m' (Code dataItem2 @ day2) = 20"
    by (simp add: length_fibonacciSequence)
qed

section \<open>The error of a rounding\<close>

lemma pow2_powi: "pow2 e = 2 powi e"
  by (simp add: pow2_def power_int_def power_inverse inverse_eq_divide power_one_over)

lemma pow2_pos: "0 < pow2 e"
  by (simp add: pow2_powi)

lemma pow2_add: "pow2 (a + b) = pow2 a * pow2 b"
  by (simp add: pow2_powi power_int_add)

lemma pow2_diff: "pow2 (a - b) = pow2 a / pow2 b"
  by (simp add: pow2_powi power_int_diff)

lemma pow2_mono: "a \<le> b \<Longrightarrow> pow2 a \<le> pow2 b"
  by (simp add: pow2_powi power_int_increasing)

lemma pow2_strict_mono: "a < b \<Longrightarrow> pow2 a < pow2 b"
  by (simp add: pow2_powi power_int_strict_increasing)

lemma pow2_nat: "0 \<le> k \<Longrightarrow> (2::rat) ^ nat k = pow2 k"
  by (simp add: pow2_def)

lemma of_int_bitlen_bounds:
  assumes "0 < a"
  shows "pow2 (bitlen a - 1) \<le> of_int a" and "of_int a < pow2 (bitlen a)"
proof -
  from bitlen_bounds [OF assms] have 1: "2 ^ nat (bitlen a - 1) \<le> a" and 2: "a < 2 ^ nat (bitlen a)"
    by simp_all
  have ge: "1 \<le> bitlen a" using assms bitlen_eq_zero_iff [of a] bitlen_nonneg [of a] by linarith
  from 1 have "(of_int (2 ^ nat (bitlen a - 1)) :: rat) \<le> of_int a" by (simp only: of_int_le_iff)
  then show "pow2 (bitlen a - 1) \<le> of_int a" using ge by (simp add: pow2_def)
  from 2 have "(of_int a :: rat) < of_int (2 ^ nat (bitlen a))" by (simp only: of_int_less_iff)
  then show "of_int a < pow2 (bitlen a)" using ge by (simp add: pow2_def)
qed

lemma binexp_bounds:
  assumes "x \<noteq> 0"
  shows "pow2 (binexp x - 1) \<le> \<bar>x\<bar>" and "\<bar>x\<bar> < pow2 (binexp x)"
proof -
  obtain a b where q: "quotient_of \<bar>x\<bar> = (a, b)" by (cases "quotient_of \<bar>x\<bar>")
  have b: "0 < b" using q by (rule quotient_of_denom_pos)
  have x: "\<bar>x\<bar> = of_int a / of_int b" using q by (rule quotient_of_div)
  have a: "0 < a"
  proof -
    have "0 < \<bar>x\<bar>" using assms by simp
    with x b show ?thesis by (simp add: zero_less_divide_iff)
  qed
  let ?n = "bitlen a - bitlen b"
  note A = of_int_bitlen_bounds [OF a] and B = of_int_bitlen_bounds [OF b]
  have bpos: "(0::rat) < of_int b" using b by simp
  have up: "\<bar>x\<bar> < pow2 (?n + 1)"
  proof -
    have "of_int a / of_int b < pow2 (bitlen a) / pow2 (bitlen b - 1)"
      using A(2) B(1) bpos a by (intro frac_less) (simp_all add: pow2_pos)
    also have "\<dots> = pow2 (?n + 1)" by (simp add: pow2_diff [symmetric] algebra_simps)
    finally show ?thesis using x by simp
  qed
  have lo: "pow2 (?n - 1) < \<bar>x\<bar>"
  proof -
    have "pow2 (bitlen a - 1) / pow2 (bitlen b) < of_int a / of_int b"
      using A(1) B(2) bpos a by (intro frac_less2) (simp_all add: pow2_pos)
    moreover have "pow2 (bitlen a - 1) / pow2 (bitlen b) = pow2 (?n - 1)"
      by (simp add: pow2_diff [symmetric] algebra_simps)
    ultimately show ?thesis using x by simp
  qed
  have e: "binexp x = (if pow2 ?n \<le> \<bar>x\<bar> then ?n + 1 else ?n)"
    using q by (simp add: binexp_def Let_def)
  show "pow2 (binexp x - 1) \<le> \<bar>x\<bar>" using e lo by (auto simp: less_imp_le)
  show "\<bar>x\<bar> < pow2 (binexp x)" using e up by (auto simp: not_le)
qed

lemma roundHalfEven_error: "\<bar>of_int (roundHalfEven y) - y\<bar> \<le> 1 / 2"
proof -
  have "of_int \<lfloor>y\<rfloor> \<le> y" and "y < of_int \<lfloor>y\<rfloor> + 1" by linarith+
  then show ?thesis by (auto simp: roundHalfEven_def Let_def abs_le_iff)
qed

text \<open>Rounding to \<open>p\<close> bits changes a number by at most the fraction \<open>2 ^ - p\<close> of it.\<close>

lemma round_prec_error: "\<bar>round_prec p x - x\<bar> \<le> \<bar>x\<bar> * pow2 (- int p)"
proof (cases "x = 0")
  case True
  then show ?thesis by (simp add: round_prec_def)
next
  case False
  let ?q = "pow2 (binexp x - int p)"
  have q: "0 < ?q" by (rule pow2_pos)
  have "round_prec p x - x = (of_int (roundHalfEven (x / ?q)) - x / ?q) * ?q"
    using False q by (simp add: round_prec_def Let_def algebra_simps)
  then have "\<bar>round_prec p x - x\<bar> = \<bar>of_int (roundHalfEven (x / ?q)) - x / ?q\<bar> * ?q"
    using q by (simp add: abs_mult)
  also have "\<dots> \<le> 1 / 2 * ?q"
    using roundHalfEven_error [of "x / ?q"] q by (intro mult_right_mono) simp_all
  also have "1 / 2 * ?q = pow2 (binexp x - 1) * pow2 (- int p)"
  proof -
    have "?q = pow2 1 * (pow2 (binexp x - 1) * pow2 (- int p))"
      by (simp add: pow2_add [symmetric])
    moreover have "pow2 1 = 2" by (simp add: pow2_def)
    ultimately show ?thesis by simp
  qed
  also have "\<dots> \<le> \<bar>x\<bar> * pow2 (- int p)"
    using binexp_bounds(1) [OF False] pow2_pos [of "- int p"] by (intro mult_right_mono) simp_all
  finally show ?thesis .
qed

text \<open>
  A branch of \<open>IsUpDownPrice\<close> whose loop stops inside the ladder: the index stored at
  the end, and the line appended when it differs from the index at the start.
\<close>

lemma escalate_stops:
  assumes t: "threshold dir codeItem = Some b"
    and i: "storedIndex dir m (Code dataItem @ day) = i"
    and "0 \<le> i" and "i \<le> j" and "j < int (length fibonacciSequence)"
    and tests: "\<forall>k. i \<le> k \<and> k < j \<longrightarrow> thresholdTest ratio b fibonacciSequence k"
    and stop: "\<not> thresholdTest ratio b fibonacciSequence j"
  shows "\<exists>m'. escalate dir day codeItem dataItem ratio m logStr =
           (None, m',
            if j \<noteq> i
            then logStr @ [(case dir of DirUp \<Rightarrow> UpLine | DirDown \<Rightarrow> DownLine)
                             (Name dataItem) (Text_f2 ratio)]
            else logStr) \<and>
         storedIndex dir m' (Code dataItem @ day) = j"
proof -
  obtain d m1 where g: "GetLogData (Code dataItem) day m = (d, m1)"
    by (cases "GetLogData (Code dataItem) day m")
  have i1: "storedIndex dir m1 (Code dataItem @ day) = i"
    using GetLogData_storedIndex [OF g] i by simp
  have "\<exists>m2. ratchetLoop dir day codeItem dataItem ratio m1 = (None, m2) \<and>
              storedIndex dir m2 (Code dataItem @ day) = j"
    by (rule ratchetLoop_stops [OF t]) (use assms i1 in simp_all)
  then obtain m2 where l: "ratchetLoop dir day codeItem dataItem ratio m1 = (None, m2)"
    and j: "storedIndex dir m2 (Code dataItem @ day) = j"
    by blast
  obtain d' m3 where g': "GetLogData (Code dataItem) day m2 = (d', m3)"
    by (cases "GetLogData (Code dataItem) day m2")
  have "rungIndex dir d' = j" using GetLogData_rungIndex [OF g', of dir] j by simp
  moreover have "rungIndex dir d = i" using GetLogData_rungIndex [OF g, of dir] i by simp
  moreover have "storedIndex dir m3 (Code dataItem @ day) = j"
    using GetLogData_storedIndex [OF g'] j by simp
  ultimately show ?thesis using g l g' by (simp add: escalate_def)
qed

lemma IsUpDownPrice_up_stops:
  assumes "calculatePercentageChange (Trade dataItem) (Open dataItem) = Inr ratio"
    and "Cmp (Open dataItem) (Trade dataItem) = - 1"
    and "Up codeItem = Some b"
    and "storedIndex DirUp m (Code dataItem @ day) = i"
    and "0 \<le> i" and "i \<le> j" and "j < int (length fibonacciSequence)"
    and "\<forall>k. i \<le> k \<and> k < j \<longrightarrow> thresholdTest ratio b fibonacciSequence k"
    and "\<not> thresholdTest ratio b fibonacciSequence j"
  shows "\<exists>m'. IsUpDownPrice day codeItem dataItem m logStr =
           (None, m',
            if j \<noteq> i then logStr @ [UpLine (Name dataItem) (Text_f2 ratio)] else logStr) \<and>
         storedIndex DirUp m' (Code dataItem @ day) = j"
proof -
  have "threshold DirUp codeItem = Some b" using assms(3) by simp
  from escalate_stops [OF this assms(4-9), of logStr] assms(1,2) show ?thesis
    by (cases "j = i") (simp_all add: IsUpDownPrice_def)
qed

section \<open>The numbers of the examples\<close>

lemma decimalSetString_0_10:
  "decimalSetString ''0.10'' = Some (BFin (14757395258967641293 / 147573952589676412928))"
  by code_simp

lemma decimalSetString_10: "decimalSetString ''10'' = Some (BFin 10)"
  by code_simp

lemma calculatePercentageChange_10_9: "calculatePercentageChange (BFin 10) (BFin 9) = Inr (BFin 10)"
  by code_simp

lemma calculatePercentageChange_10_8: "calculatePercentageChange (BFin 10) (BFin 8) = Inr (BFin 20)"
  by code_simp

lemma calculatePercentageChange_1000_999:
  "calculatePercentageChange (BFin 1000) (BFin 999) =
     Inr (BFin (3689348814741910323 / 36893488147419103232))"
  by code_simp

lemma calculatePercentageChange_1000_998:
  "calculatePercentageChange (BFin 1000) (BFin 998) =
     Inr (BFin (3689348814741910323 / 18446744073709551616))"
  by code_simp

lemma calculatePercentageChange_1000_997:
  "calculatePercentageChange (BFin 1000) (BFin 997) =
     Inr (BFin (5534023222112865485 / 18446744073709551616))"
  by code_simp

lemma Float64_10: "Float64 (BFin 10) = F64 10"
  by code_simp

lemma Float64_20: "Float64 (BFin 20) = F64 20"
  by code_simp

lemma Float64_0_10:
  "Float64 (BFin (14757395258967641293 / 147573952589676412928)) =
     F64 (3602879701896397 / 36028797018963968)"
  by code_simp

lemma Float64_move_0_10:
  "Float64 (BFin (3689348814741910323 / 36893488147419103232)) =
     F64 (3602879701896397 / 36028797018963968)"
  by code_simp

lemma Float64_move_0_20:
  "Float64 (BFin (3689348814741910323 / 18446744073709551616)) =
     F64 (3602879701896397 / 18014398509481984)"
  by code_simp

lemma Float64_move_0_30:
  "Float64 (BFin (5534023222112865485 / 18446744073709551616)) =
     F64 (5404319552844595 / 18014398509481984)"
  by code_simp

lemma upto_tests:
  "list_all P [i..j - 1] \<Longrightarrow> \<forall>k. i \<le> k \<and> k < j \<longrightarrow> P k"
  by (auto simp: list_all_iff)

text \<open>The base 0.10 against a change of 10 and of 20.\<close>

lemma tests_10_base_0_10:
  "list_all (thresholdTest (BFin 10) (BFin (14757395258967641293 / 147573952589676412928))
      fibonacciSequence) [0..10 - 1]"
  "\<not> thresholdTest (BFin 10) (BFin (14757395258967641293 / 147573952589676412928))
      fibonacciSequence 10"
  unfolding thresholdTest_def fibonacciSequence_eq Float64_10 Float64_0_10
  by code_simp+

lemma tests_20_base_0_10:
  "list_all (thresholdTest (BFin 20) (BFin (14757395258967641293 / 147573952589676412928))
      fibonacciSequence) [0..11 - 1]"
  "\<not> thresholdTest (BFin 20) (BFin (14757395258967641293 / 147573952589676412928))
      fibonacciSequence 11"
  unfolding thresholdTest_def fibonacciSequence_eq Float64_20 Float64_0_10
  by code_simp+

text \<open>The base 10 against a change of 10 and of 20.\<close>

lemma tests_10_base_10:
  "list_all (thresholdTest (BFin 10) (BFin 10) fibonacciSequence) [0..1 - 1]"
  "\<not> thresholdTest (BFin 10) (BFin 10) fibonacciSequence 1"
  unfolding thresholdTest_def fibonacciSequence_eq Float64_10
  by code_simp+

lemma tests_20_base_10:
  "list_all (thresholdTest (BFin 20) (BFin 10) fibonacciSequence) [0..2 - 1]"
  "\<not> thresholdTest (BFin 20) (BFin 10) fibonacciSequence 2"
  unfolding thresholdTest_def fibonacciSequence_eq Float64_10 Float64_20
  by code_simp+

text \<open>The base 0.10 against the changes computed for moves of 0.10, 0.20 and 0.30 percent.\<close>

lemma tests_move_0_10:
  "list_all (thresholdTest (BFin (3689348814741910323 / 36893488147419103232))
      (BFin (14757395258967641293 / 147573952589676412928)) fibonacciSequence) [0..1 - 1]"
  "\<not> thresholdTest (BFin (3689348814741910323 / 36893488147419103232))
      (BFin (14757395258967641293 / 147573952589676412928)) fibonacciSequence 1"
  unfolding thresholdTest_def fibonacciSequence_eq Float64_move_0_10 Float64_0_10
  by code_simp+

lemma tests_move_0_20:
  "list_all (thresholdTest (BFin (3689348814741910323 / 18446744073709551616))
      (BFin (14757395258967641293 / 147573952589676412928)) fibonacciSequence) [0..2 - 1]"
  "\<not> thresholdTest (BFin (3689348814741910323 / 18446744073709551616))
      (BFin (14757395258967641293 / 147573952589676412928)) fibonacciSequence 2"
  unfolding thresholdTest_def fibonacciSequence_eq Float64_move_0_20 Float64_0_10
  by code_simp+

lemma test_move_0_30:
  "\<not> thresholdTest (BFin (5534023222112865485 / 18446744073709551616))
      (BFin (14757395258967641293 / 147573952589676412928)) fibonacciSequence 2"
  unfolding thresholdTest_def fibonacciSequence_eq Float64_move_0_30 Float64_0_10
  by code_simp

section \<open>Escalations on concrete quotes\<close>

text \<open>
  The rising branch of \<open>IsUpDownPrice\<close> from an empty store, for the rule \<open>ruleX\<close>
  and a quote of the code \<open>X\<close>.
\<close>

lemma up_example:
  assumes "calculatePercentageChange trade op = Inr ratio"
    and "Cmp op trade = - 1"
    and "decimalSetString up = Some b"
    and "list_all (thresholdTest ratio b fibonacciSequence) [0..j - 1]"
    and "\<not> thresholdTest ratio b fibonacciSequence j"
    and "0 \<le> j" and "j < 20"
  shows "fst (IsUpDownPrice day (ruleX up down) (quote ''X'' name trade settlement op)
            Map.empty []) = None \<and>
         storedIndex DirUp
           (fst (snd (IsUpDownPrice day (ruleX up down) (quote ''X'' name trade settlement op)
              Map.empty []))) (''X'' @ day) = j \<and>
         snd (snd (IsUpDownPrice day (ruleX up down) (quote ''X'' name trade settlement op)
            Map.empty [])) = (if j \<noteq> 0 then [UpLine name (Text_f2 ratio)] else [])"
proof -
  let ?item = "quote ''X'' name trade settlement op"
  have "\<exists>m'. IsUpDownPrice day (ruleX up down) ?item Map.empty [] =
           (None, m', if j \<noteq> 0 then [] @ [UpLine (Name ?item) (Text_f2 ratio)] else []) \<and>
         storedIndex DirUp m' (Code ?item @ day) = j"
  proof (rule IsUpDownPrice_up_stops [where b = b])
    show "calculatePercentageChange (Trade ?item) (Open ?item) = Inr ratio"
      using assms(1) by (simp add: quote_def)
    show "Cmp (Open ?item) (Trade ?item) = - 1" using assms(2) by (simp add: quote_def)
    show "Up (ruleX up down) = Some b" using assms(3) by (simp add: ruleX_def)
    show "storedIndex DirUp Map.empty (Code ?item @ day) = 0" by (simp add: storedIndex_def)
    show "(0::int) \<le> 0" by simp
    show "0 \<le> j" by (rule assms(6))
    show "j < int (length fibonacciSequence)" using assms(7) by (simp add: length_fibonacciSequence)
    show "\<forall>k. 0 \<le> k \<and> k < j \<longrightarrow> thresholdTest ratio b fibonacciSequence k"
      using assms(4) by (rule upto_tests)
    show "\<not> thresholdTest ratio b fibonacciSequence j" by (rule assms(5))
  qed
  then show ?thesis by (auto simp: quote_def)
qed

lemma Cmp_less: "a < b \<Longrightarrow> Cmp (BFin a) (BFin b) = - 1"
  by (auto simp: Cmp_def Let_def)

lemma Text_f2_10: "Text_f2 (BFin 10) = ''10.00''"
  by code_simp

lemma Text_f2_20: "Text_f2 (BFin 20) = ''20.00''"
  by code_simp

text \<open>
  C2, refuted as stated. With the base threshold 0.10, a quote that opened at 9 and
  trades at 10 gives exactly 10 as the percentage, and the rung index goes from 0 to
  10, not to 1; a quote that opened at 8 and trades at 10 gives exactly 20, and the
  index goes from 0 to 11, not to 2.
\<close>

theorem base_0_10_moves_of_10_and_20_percent:
  "calculatePercentageChange (BFin 10) (BFin 9) = Inr (BFin 10) \<and>
   fst (IsUpDownPrice ''2024-01-02'' (ruleX ''0.10'' ''0.10'')
          (quote ''X'' ''x'' (BFin 10) (BFin 9) (BFin 9)) Map.empty []) = None \<and>
   storedIndex DirUp
     (fst (snd (IsUpDownPrice ''2024-01-02'' (ruleX ''0.10'' ''0.10'')
                  (quote ''X'' ''x'' (BFin 10) (BFin 9) (BFin 9)) Map.empty [])))
     ''X2024-01-02'' = 10 \<and>
   calculatePercentageChange (BFin 10) (BFin 8) = Inr (BFin 20) \<and>
   fst (IsUpDownPrice ''2024-01-02'' (ruleX ''0.10'' ''0.10'')
          (quote ''X'' ''x'' (BFin 10) (BFin 8) (BFin 8)) Map.empty []) = None \<and>
   storedIndex DirUp
     (fst (snd (IsUpDownPrice ''2024-01-02'' (ruleX ''0.10'' ''0.10'')
                  (quote ''X'' ''x'' (BFin 10) (BFin 8) (BFin 8)) Map.empty [])))
     ''X2024-01-02'' = 11"
  using up_example [OF calculatePercentageChange_10_9 Cmp_less decimalSetString_0_10
      tests_10_base_0_10, of "''2024-01-02''" "''0.10''" "''x''" "BFin 9"]
    up_example [OF calculatePercentageChange_10_8 Cmp_less decimalSetString_0_10
      tests_20_base_0_10, of "''2024-01-02''" "''0.10''" "''x''" "BFin 8"]
  by (simp add: calculatePercentageChange_10_9 calculatePercentageChange_10_8)

text \<open>
  C2 as amended. The base threshold is in the unit of the percentage. With the base
  0.10 (a tenth of a percent) and the ladder 1, 2, 3, 5, 8, ..., a move of exactly
  0.10 percent (from 999 to 1000) advances the rung index from 0 to 1, and a move of
  exactly 0.20 percent (from 998 to 1000) advances it from 0 to 2 in one evaluation;
  with the base 10, the moves of exactly 10 percent (from 9 to 10) and of exactly 20
  percent (from 8 to 10) do the same.
\<close>

theorem base_threshold_in_percent:
  "storedIndex DirUp
     (fst (snd (IsUpDownPrice ''2024-01-02'' (ruleX ''0.10'' ''0.10'')
                  (quote ''X'' ''x'' (BFin 1000) (BFin 999) (BFin 999)) Map.empty [])))
     ''X2024-01-02'' = 1 \<and>
   storedIndex DirUp
     (fst (snd (IsUpDownPrice ''2024-01-02'' (ruleX ''0.10'' ''0.10'')
                  (quote ''X'' ''x'' (BFin 1000) (BFin 998) (BFin 998)) Map.empty [])))
     ''X2024-01-02'' = 2 \<and>
   storedIndex DirUp
     (fst (snd (IsUpDownPrice ''2024-01-02'' (ruleX ''10'' ''10'')
                  (quote ''X'' ''x'' (BFin 10) (BFin 9) (BFin 9)) Map.empty [])))
     ''X2024-01-02'' = 1 \<and>
   storedIndex DirUp
     (fst (snd (IsUpDownPrice ''2024-01-02'' (ruleX ''10'' ''10'')
                  (quote ''X'' ''x'' (BFin 10) (BFin 8) (BFin 8)) Map.empty [])))
     ''X2024-01-02'' = 2 \<and>
   fibonacciSequence ! 0 = 1 \<and> fibonacciSequence ! 1 = 2 \<and> fibonacciSequence ! 2 = 3 \<and>
   fibonacciSequence ! 3 = 5 \<and> fibonacciSequence ! 4 = 8"
  using up_example [OF calculatePercentageChange_1000_999 Cmp_less decimalSetString_0_10
      tests_move_0_10, of "''2024-01-02''" "''0.10''" "''x''" "BFin 999"]
    up_example [OF calculatePercentageChange_1000_998 Cmp_less decimalSetString_0_10
      tests_move_0_20, of "''2024-01-02''" "''0.10''" "''x''" "BFin 998"]
    up_example [OF calculatePercentageChange_10_9 Cmp_less decimalSetString_10
      tests_10_base_10, of "''2024-01-02''" "''10''" "''x''" "BFin 9"]
    up_example [OF calculatePercentageChange_10_8 Cmp_less decimalSetString_10
      tests_20_base_10, of "''2024-01-02''" "''10''" "''x''" "BFin 8"]
  by (simp add: fibonacciSequence_eq)

text \<open>An instance of C10: an infinite change against the threshold 1, at the first rung.\<close>

theorem IsFibonacciSequence_at_most_one_witness:
  "Some (BFin 1) \<noteq> None \<and> (0::int) \<le> 0 \<and> 0 < int (length fibonacciSequence) \<and>
   IsFibonacciSequence (BInf False) (Some (BFin 1)) fibonacciSequence 0 = Inr (0 + 1) \<and>
   IsFibonacciSequence (BInf False) None fibonacciSequence 0 = Inl NilPointerDereference \<and>
   IsFibonacciSequence (BInf False) (Some (BFin 1)) fibonacciSequence 20 =
     Inl (IndexOutOfRange 20 20)"
proof -
  have t: "thresholdTest (BInf False) (BFin 1) fibonacciSequence 0"
    by (rule thresholdTest_Inf [OF Float64_1]) simp
  from IsFibonacciSequence_at_most_one [of "BInf False" "Some (BFin 1)" fibonacciSequence 0
      "BInf False" None fibonacciSequence 0]
  have "IsFibonacciSequence (BInf False) (Some (BFin 1)) fibonacciSequence 0 = Inr 0 \<or>
        IsFibonacciSequence (BInf False) (Some (BFin 1)) fibonacciSequence 0 = Inr (0 + 1)"
    by (simp add: length_fibonacciSequence)
  with t show ?thesis
    by (simp add: IsFibonacciSequence_Some IsFibonacciSequence_None length_fibonacciSequence)
qed

text \<open>
  An instance of C1: the threshold 10 and a quote that opened at 8 and trades at 10;
  the index goes from 0 to 2.
\<close>

theorem ratchet_monotonic_witness:
  "IsFibonacciSequence (BFin 20) (Some (BFin 10)) fibonacciSequence 0 = Inr 1 \<and>
   storedIndex DirUp Map.empty ''X2024-01-02'' = 0 \<and>
   storedIndex DirUp
     (fst (snd (IsUpDownPrice ''2024-01-02'' (ruleX ''10'' ''10'')
                  (quote ''X'' ''x'' (BFin 10) (BFin 8) (BFin 8)) Map.empty [])))
     ''X2024-01-02'' = 2 \<and>
   storedIndex DirUp Map.empty ''X2024-01-02''
     \<le> storedIndex DirUp
         (fst (snd (IsUpDownPrice ''2024-01-02'' (ruleX ''10'' ''10'')
                      (quote ''X'' ''x'' (BFin 10) (BFin 8) (BFin 8)) Map.empty [])))
         ''X2024-01-02'' \<and>
   storedIndex DirUp Map.empty ''X2024-01-02''
     \<le> storedIndex DirUp
         (snd (ratchetLoop DirUp ''2024-01-02'' (ruleX ''10'' ''10'')
                 (quote ''X'' ''x'' (BFin 10) (BFin 8) (BFin 8)) (BFin 20) Map.empty))
         ''X2024-01-02'' \<and>
   storedIndex DirUp (alertState process0) ''X2024-01-02''
     \<le> storedIndex DirUp (alertState (ticks decimalSetString ''X-10-10'' [] process0))
         ''X2024-01-02''"
proof -
  let ?X = "IsUpDownPrice ''2024-01-02'' (ruleX ''10'' ''10'')
              (quote ''X'' ''x'' (BFin 10) (BFin 8) (BFin 8)) Map.empty []"
  let ?L = "ratchetLoop DirUp ''2024-01-02'' (ruleX ''10'' ''10'')
              (quote ''X'' ''x'' (BFin 10) (BFin 8) (BFin 8)) (BFin 20) Map.empty"
  note m = ratchet_monotonic [where c = "BFin 20" and b = "Some (BFin 10)"
      and fs = fibonacciSequence and idx = 0 and dir = DirUp and day = "''2024-01-02''"
      and codeItem = "ruleX ''10'' ''10''"
      and dataItem = "quote ''X'' ''x'' (BFin 10) (BFin 8) (BFin 8)" and ratio = "BFin 20"
      and m = Map.empty and dir' = DirUp and key = "''X2024-01-02''" and logStr = "[]"
      and proc = process0 and SetString = decimalSetString and codes = "''X-10-10''"
      and inps = "[]"]
  have X: "?X = (fst ?X, fst (snd ?X), snd (snd ?X))" by simp
  have L: "?L = (fst ?L, snd ?L)" by simp
  from m have "\<forall>r m' logStr'. ?X = (r, m', logStr') \<longrightarrow>
      storedIndex DirUp Map.empty ''X2024-01-02'' \<le> storedIndex DirUp m' ''X2024-01-02''"
    by blast
  with X have 1: "storedIndex DirUp Map.empty ''X2024-01-02''
      \<le> storedIndex DirUp (fst (snd ?X)) ''X2024-01-02''"
    by blast
  from m have "\<forall>r m'. ?L = (r, m') \<longrightarrow>
      storedIndex DirUp Map.empty ''X2024-01-02'' \<le> storedIndex DirUp m' ''X2024-01-02''"
    by blast
  with L have 5: "storedIndex DirUp Map.empty ''X2024-01-02''
      \<le> storedIndex DirUp (snd ?L) ''X2024-01-02''"
    by blast
  from m have 2: "storedIndex DirUp (alertState process0) ''X2024-01-02''
     \<le> storedIndex DirUp (alertState (ticks decimalSetString ''X-10-10'' [] process0))
         ''X2024-01-02''"
    by blast
  have "thresholdTest (BFin 20) (BFin 10) fibonacciSequence 0"
    using upto_tests [OF tests_20_base_10(1)] by simp
  then have 3: "IsFibonacciSequence (BFin 20) (Some (BFin 10)) fibonacciSequence 0 = Inr 1"
    by (simp add: IsFibonacciSequence_Some length_fibonacciSequence)
  have 4: "storedIndex DirUp (fst (snd ?X)) ''X2024-01-02'' = 2"
    using up_example [OF calculatePercentageChange_10_8 Cmp_less decimalSetString_10
      tests_20_base_10, of "''2024-01-02''" "''10''" "''x''" "BFin 8"]
    by simp
  have 0: "storedIndex DirUp Map.empty ''X2024-01-02'' = 0" by (simp add: storedIndex_def)
  show ?thesis by (intro conjI) (fact 0 1 2 3 4 5)+
qed

text \<open>
  An instance of C8: a rule with the threshold 1 and the infinite change that
  \<open>calculatePercentageChange\<close> gives for a trade price of zero, from an empty store.
  The loop panics at the index 20; a finite change of 20 against the base 10 stops it
  at the index 2, where the test fails.
\<close>

theorem ladder_bounds_witness:
  "calculatePercentageChange (BZero False) (BFin 9) = Inr (BInf True) \<and>
   threshold DirDown (ruleX ''1'' ''1'') = Some (BFin 1) \<and>
   storedIndex DirDown Map.empty ''X2024-01-02'' = 0 \<and>
   list_all (thresholdTest (BInf True) (BFin 1) fibonacciSequence) [0..19] \<and>
   fst (ratchetLoop DirDown ''2024-01-02'' (ruleX ''1'' ''1'')
          (quote ''X'' ''x'' (BZero False) (BFin 9) (BFin 9)) (BInf True) Map.empty) =
     Some (IndexOutOfRange 20 20) \<and>
   storedIndex DirDown
     (snd (ratchetLoop DirDown ''2024-01-02'' (ruleX ''1'' ''1'')
             (quote ''X'' ''x'' (BZero False) (BFin 9) (BFin 9)) (BInf True) Map.empty))
     ''X2024-01-02'' = 20 \<and>
   IsFibonacciSequence (BInf True) (Some (BFin 1)) fibonacciSequence 19 = Inr 20 \<and>
   IsFibonacciSequence (BInf True) (Some (BFin 1)) fibonacciSequence 20 =
     Inl (IndexOutOfRange 20 20) \<and>
   fst (ratchetLoop DirUp ''2024-01-02'' (ruleX ''10'' ''10'')
          (quote ''X'' ''x'' (BFin 10) (BFin 8) (BFin 8)) (BFin 20) Map.empty) = None \<and>
   storedIndex DirUp
     (snd (ratchetLoop DirUp ''2024-01-02'' (ruleX ''10'' ''10'')
             (quote ''X'' ''x'' (BFin 10) (BFin 8) (BFin 8)) (BFin 20) Map.empty))
     ''X2024-01-02'' = 2 \<and>
   \<not> thresholdTest (BFin 20) (BFin 10) fibonacciSequence 2"
proof -
  let ?rule = "ruleX ''1'' ''1''"
  let ?item = "quote ''X'' ''x'' (BZero False) (BFin 9) (BFin 9)"
  let ?rule' = "ruleX ''10'' ''10''"
  let ?item' = "quote ''X'' ''x'' (BFin 10) (BFin 8) (BFin 8)"
  let ?L = "ratchetLoop DirUp ''2024-01-02'' ?rule' ?item' (BFin 20) Map.empty"
  have t: "\<And>k. thresholdTest (BInf True) (BFin 1) fibonacciSequence k"
    by (rule thresholdTest_Inf [OF Float64_1]) simp
  have c: "Code ?item @ ''2024-01-02'' = ''X2024-01-02''" by (simp add: quote_def)
  have c': "Code ?item' @ ''2024-01-02'' = ''X2024-01-02''" by (simp add: quote_def)
  have s: "storedIndex DirDown Map.empty ''X2024-01-02'' = 0" by (simp add: storedIndex_def)
  have d: "decimalSetString ''1'' = Some (BFin 1)" by code_simp
  then have th: "threshold DirDown ?rule = Some (BFin 1)" by (simp add: ruleX_def)
  have th': "threshold DirUp ?rule' = Some (BFin 10)"
    by (simp add: ruleX_def decimalSetString_10)
  note l = ladder_bounds [where i = 19 and i' = 20 and c = "BInf True" and b = "BFin 1"
      and dir = DirUp and day = "''2024-01-02''" and codeItem = ?rule' and dataItem = ?item'
      and ratio = "BFin 20" and m = Map.empty
      and ?dir2.0 = DirDown and ?day2.0 = "''2024-01-02''" and ?codeItem2.0 = ?rule
      and ?dataItem2.0 = ?item and ?ratio2.0 = "BInf True" and ?m2.0 = Map.empty
      and ?b2.0 = "BFin 1"]
  from l t have 1: "IsFibonacciSequence (BInf True) (Some (BFin 1)) fibonacciSequence 19 = Inr 20"
    by (simp add: IsFibonacciSequence_Some)
  from l have 2: "IsFibonacciSequence (BInf True) (Some (BFin 1)) fibonacciSequence 20 =
      Inl (IndexOutOfRange 20 20)"
    by simp
  from l t c s th have "\<exists>m'. ratchetLoop DirDown ''2024-01-02'' ?rule ?item (BInf True) Map.empty =
            (Some (IndexOutOfRange 20 20), m') \<and>
          storedIndex DirDown m' ''X2024-01-02'' = 20"
    by simp
  then have 3: "fst (ratchetLoop DirDown ''2024-01-02'' ?rule ?item (BInf True) Map.empty) =
      Some (IndexOutOfRange 20 20)"
    and 4: "storedIndex DirDown
      (snd (ratchetLoop DirDown ''2024-01-02'' ?rule ?item (BInf True) Map.empty))
      ''X2024-01-02'' = 20"
    by auto
  have 5: "calculatePercentageChange (BZero False) (BFin 9) = Inr (BInf True)"
    by (simp add: calculatePercentageChange_def NewFloat100_def)
  have 6: "list_all (thresholdTest (BInf True) (BFin 1) fibonacciSequence) [0..19]"
    using t by (simp add: list_all_iff)
  have "\<exists>m'. ?L = (None, m') \<and> storedIndex DirUp m' (Code ?item' @ ''2024-01-02'') = 2"
  proof (rule ratchetLoop_stops [OF th'])
    show "0 \<le> storedIndex DirUp Map.empty (Code ?item' @ ''2024-01-02'')"
      and "storedIndex DirUp Map.empty (Code ?item' @ ''2024-01-02'') \<le> 2"
      by (simp_all add: storedIndex_def)
    show "2 < int (length fibonacciSequence)" by (simp add: length_fibonacciSequence)
    show "\<forall>k. storedIndex DirUp Map.empty (Code ?item' @ ''2024-01-02'') \<le> k \<and> k < 2 \<longrightarrow>
        thresholdTest (BFin 20) (BFin 10) fibonacciSequence k"
      using upto_tests [OF tests_20_base_10(1)] by (simp add: storedIndex_def)
    show "\<not> thresholdTest (BFin 20) (BFin 10) fibonacciSequence 2" by (rule tests_20_base_10(2))
  qed
  then have 7: "fst ?L = None" and 8: "storedIndex DirUp (snd ?L) ''X2024-01-02'' = 2"
    and L: "?L = (None, snd ?L)"
    unfolding c' by auto
  from l have "\<forall>m'. ?L = (None, m') \<longrightarrow>
      (\<exists>b'. threshold DirUp ?rule' = Some b' \<and>
            storedIndex DirUp m' (Code ?item' @ ''2024-01-02'') < 20 \<and>
            \<not> thresholdTest (BFin 20) b' fibonacciSequence
               (storedIndex DirUp m' (Code ?item' @ ''2024-01-02'')))"
    by blast
  with L have "\<exists>b'. threshold DirUp ?rule' = Some b' \<and>
            \<not> thresholdTest (BFin 20) b' fibonacciSequence
               (storedIndex DirUp (snd ?L) (Code ?item' @ ''2024-01-02''))"
    by blast
  then have 9: "\<not> thresholdTest (BFin 20) (BFin 10) fibonacciSequence 2"
    unfolding c' 8 th' by simp
  show ?thesis by (intro conjI) (fact 1 2 3 4 5 6 7 8 9 s th)+
qed

section \<open>Gap lines on concrete quotes\<close>

lemma calculatePercentageChange_same: "calculatePercentageChange (BFin 9) (BFin 9) = Inr (BZero False)"
  by (simp add: calculatePercentageChange_def NewFloat100_def)

lemma Cmp_same: "Cmp (BFin a) (BFin a) = 0"
  by (simp add: Cmp_def Let_def)

text \<open>The first gap-open check of a day for a quote whose prior close equals its open.\<close>

lemma IsInitPrice_first_9_9:
  "IsInitPrice ''2024-01-02'' (quote ''X'' ''x'' (BFin 9) (BFin 9) (BFin 9)) Map.empty [] =
     (None,
      (Map.empty(''X2024-01-02'' \<mapsto> newData))(''X2024-01-02'' \<mapsto> newData\<lparr>InitPrice := True\<rparr>),
      [GapLine ''x'' NoLabel ''0.00''])"
proof -
  let ?item = "quote ''X'' ''x'' (BFin 9) (BFin 9) (BFin 9)"
  have c: "calculatePercentageChange (Open ?item) (Settlement ?item) = Inr (BZero False)"
    by (simp add: quote_def calculatePercentageChange_same)
  have g: "GetLogData (Code ?item) ''2024-01-02'' Map.empty =
      (newData, Map.empty(''X2024-01-02'' \<mapsto> newData))"
    by (simp add: GetLogData_def quote_def)
  from IsInitPrice_eq [OF c g, of "[]"] show ?thesis
    by (simp add: notified_def quote_def Cmp_same)
qed

text \<open>
  C3, refuted as stated. For a quote whose prior close and open are both 9, on a day
  on which nothing has been sent for it, the gap-open check appends a line, with the
  empty label and the percentage 0.00.
\<close>

theorem equal_prices_gap_line:
  "Cmp (Settlement (quote ''X'' ''x'' (BFin 9) (BFin 9) (BFin 9)))
     (Open (quote ''X'' ''x'' (BFin 9) (BFin 9) (BFin 9))) = 0 \<and>
   snd (snd (IsInitPrice ''2024-01-02'' (quote ''X'' ''x'' (BFin 9) (BFin 9) (BFin 9))
               Map.empty [])) = [GapLine ''x'' NoLabel ''0.00'']"
proof (intro conjI)
  show "Cmp (Settlement (quote ''X'' ''x'' (BFin 9) (BFin 9) (BFin 9)))
     (Open (quote ''X'' ''x'' (BFin 9) (BFin 9) (BFin 9))) = 0"
    by (simp add: quote_def Cmp_same)
  show "snd (snd (IsInitPrice ''2024-01-02'' (quote ''X'' ''x'' (BFin 9) (BFin 9) (BFin 9))
               Map.empty [])) = [GapLine ''x'' NoLabel ''0.00'']"
    by (simp add: IsInitPrice_first_9_9)
qed

text \<open>
  An instance of C3 as amended, on the store that the first check of the day leaves:
  the flag is set and nothing more is appended.
\<close>

theorem IsInitPrice_equal_prices_witness:
  "Cmp (Settlement (quote ''X'' ''x'' (BFin 9) (BFin 9) (BFin 9)))
     (Open (quote ''X'' ''x'' (BFin 9) (BFin 9) (BFin 9))) = 0 \<and>
   calculatePercentageChange (Open (quote ''X'' ''x'' (BFin 9) (BFin 9) (BFin 9)))
     (Settlement (quote ''X'' ''x'' (BFin 9) (BFin 9) (BFin 9))) = Inr (BZero False) \<and>
   snd (snd (IsInitPrice ''2024-01-02'' (quote ''X'' ''x'' (BFin 9) (BFin 9) (BFin 9))
               Map.empty [])) = [GapLine ''x'' NoLabel ''0.00''] \<and>
   notified (fst (snd (IsInitPrice ''2024-01-02'' (quote ''X'' ''x'' (BFin 9) (BFin 9) (BFin 9))
               Map.empty []))) ''X2024-01-02'' \<and>
   snd (snd (IsInitPrice ''2024-01-02'' (quote ''X'' ''x'' (BFin 9) (BFin 9) (BFin 9))
               (fst (snd (IsInitPrice ''2024-01-02''
                            (quote ''X'' ''x'' (BFin 9) (BFin 9) (BFin 9)) Map.empty [])))
               [])) = []"
proof -
  let ?item = "quote ''X'' ''x'' (BFin 9) (BFin 9) (BFin 9)"
  let ?m1 = "fst (snd (IsInitPrice ''2024-01-02'' ?item Map.empty []))"
  have a: "Cmp (Settlement ?item) (Open ?item) = 0" by (simp add: quote_def Cmp_same)
  have b: "calculatePercentageChange (Open ?item) (Settlement ?item) = Inr (BZero False)"
    by (simp add: quote_def calculatePercentageChange_same)
  have k: "Code ?item @ ''2024-01-02'' = ''X2024-01-02''" by (simp add: quote_def)
  have n0: "\<not> notified Map.empty ''X2024-01-02''" by (simp add: notified_def)
  have o: "isneg (Open ?item) = False" and nm: "Name ?item = ''x''" by (simp_all add: quote_def)
  from IsInitPrice_equal_prices [OF a b, of "''2024-01-02''" Map.empty "[]"]
  obtain m' where "IsInitPrice ''2024-01-02'' ?item Map.empty [] =
      (None, m', [GapLine ''x'' NoLabel ''0.00''])" and "notified m' ''X2024-01-02''"
    unfolding k o nm using n0 by auto
  then have 1: "snd (snd (IsInitPrice ''2024-01-02'' ?item Map.empty [])) =
      [GapLine ''x'' NoLabel ''0.00'']" and 2: "notified ?m1 ''X2024-01-02''"
    by simp_all
  from IsInitPrice_equal_prices [OF a b, of "''2024-01-02''" ?m1 "[]"]
  obtain m'' where "IsInitPrice ''2024-01-02'' ?item ?m1 [] = (None, m'', [])"
    unfolding k o nm using 2 by auto
  then have 3: "snd (snd (IsInitPrice ''2024-01-02'' ?item ?m1 [])) = []"
    by simp
  show ?thesis by (intro conjI) (fact a b 1 2 3)+
qed

text \<open>
  An instance of C7: two gap-open checks of the same quote on the same day, from an
  empty store. The first sends the line and sets the flag, the second sends nothing.
\<close>

theorem gap_line_at_most_once_witness:
  "snd (snd (IsInitPrice ''2024-01-02'' (quote ''X'' ''x'' (BFin 9) (BFin 9) (BFin 9))
               Map.empty [])) = [GapLine ''x'' NoLabel ''0.00''] \<and>
   \<not> notified Map.empty ''X2024-01-02'' \<and>
   notified (fst (snd (IsInitPrice ''2024-01-02'' (quote ''X'' ''x'' (BFin 9) (BFin 9) (BFin 9))
               Map.empty []))) ''X2024-01-02'' \<and>
   gapLines ''X2024-01-02''
     [Gap ''2024-01-02'' (quote ''X'' ''x'' (BFin 9) (BFin 9) (BFin 9)),
      Gap ''2024-01-02'' (quote ''X'' ''x'' (BFin 9) (BFin 9) (BFin 9))] Map.empty = 1 \<and>
   gapLines ''X2024-01-02''
     [Gap ''2024-01-02'' (quote ''X'' ''x'' (BFin 9) (BFin 9) (BFin 9))]
     (fst (snd (IsInitPrice ''2024-01-02'' (quote ''X'' ''x'' (BFin 9) (BFin 9) (BFin 9))
               Map.empty []))) = 0 \<and>
   notified
     (alertState
        (ticks decimalSetString ''X-1-1'' [tickSinkUp]
           (process0\<lparr>alertState :=
              fst (snd (IsInitPrice ''2024-01-02''
                          (quote ''X'' ''x'' (BFin 9) (BFin 9) (BFin 9)) Map.empty []))\<rparr>)))
     ''X2024-01-02''"
proof -
  let ?item = "quote ''X'' ''x'' (BFin 9) (BFin 9) (BFin 9)"
  let ?X = "IsInitPrice ''2024-01-02'' ?item Map.empty []"
  let ?m1 = "fst (snd ?X)"
  have k: "Code ?item @ ''2024-01-02'' = ''X2024-01-02''" by (simp add: quote_def)
  have X: "?X = (None, ?m1, [GapLine ''x'' NoLabel ''0.00''])"
    by (simp add: IsInitPrice_first_9_9)
  note g = gap_line_at_most_once [where day = "''2024-01-02''" and dataItem = ?item
      and m = Map.empty and logStr = "[]" and key = "''X2024-01-02''"
      and calls = "[Gap ''2024-01-02'' ?item]" and ?m2.0 = ?m1
      and proc = "process0\<lparr>alertState := ?m1\<rparr>" and SetString = decimalSetString
      and codes = "''X-1-1''" and inps = "[tickSinkUp]"]
  have n0: "\<not> notified Map.empty ''X2024-01-02''" by (simp add: notified_def)
  have l: "snd (snd ?X) = [GapLine ''x'' NoLabel ''0.00'']" by (simp add: IsInitPrice_first_9_9)
  from g have "\<forall>r m' logStr'. ?X = (r, m', logStr') \<longrightarrow>
      logStr' = [] \<or>
      (\<not> notified Map.empty (Code ?item @ ''2024-01-02'') \<and>
       notified m' (Code ?item @ ''2024-01-02'') \<and> length logStr' = length ([]::line list) + 1)"
    by blast
  with X have n: "notified ?m1 ''X2024-01-02''" unfolding k by blast
  with g have z: "gapLines ''X2024-01-02'' [Gap ''2024-01-02'' ?item] ?m1 = 0" by blast
  have "gapLines ''X2024-01-02'' [Gap ''2024-01-02'' ?item, Gap ''2024-01-02'' ?item] Map.empty =
      (case ?X of (p, m', ls) \<Rightarrow>
          (if gapOf ''X2024-01-02'' (Gap ''2024-01-02'' ?item) then length ls else 0) +
          (case p of None \<Rightarrow> gapLines ''X2024-01-02'' [Gap ''2024-01-02'' ?item] m'
           | Some e \<Rightarrow> 0))"
    by (simp only: gapLines.simps runCall.simps)
  also have "\<dots> = 1 + gapLines ''X2024-01-02'' [Gap ''2024-01-02'' ?item] ?m1"
    by (subst X, simp only: prod.case option.case gapOf.simps k) simp
  finally have t: "gapLines ''X2024-01-02'' [Gap ''2024-01-02'' ?item, Gap ''2024-01-02'' ?item]
      Map.empty = 1"
    using z by simp
  have "notified (alertState (process0\<lparr>alertState := ?m1\<rparr>)) ''X2024-01-02''"
    using n by simp
  with g have f: "notified
     (alertState (ticks decimalSetString ''X-1-1'' [tickSinkUp] (process0\<lparr>alertState := ?m1\<rparr>)))
     ''X2024-01-02''"
    by blast
  show ?thesis by (intro conjI) (fact l n0 n t z f)+
qed

section \<open>Cycles on concrete inputs\<close>

lemma parseCodes_X_1_1:
  "parseCodes decimalSetString ''X-1-1'' = [\<lparr>RuleCode = ''X'', Up = Some (BFin 1), Down = Some (BFin 1)\<rparr>]"
  by code_simp

lemma Task_no_quotes:
  "Task decimalSetString ''X-1-1'' ''2024-01-02'' (\<lambda>c. Inr []) Map.empty [] =
     (None, Map.empty, [NotFound ''X''])"
  by (simp add: Task_def parseCodes_X_1_1 convertToMap_def)

text \<open>
  C4, refuted as stated. A process at its start, one rule, no quote: the cycle has the
  line of the unmatched rule to send. When the delivery fails, the process has exited
  with status 1 after the tick, and a later tick, whose delivery would succeed, is not
  run: the process log still ends with the fatal line.
\<close>

theorem delivery_failure_stops_cycles:
  "status (tick decimalSetString ''X-1-1'' tickSinkDown process0) = Exited 1 \<and>
   processLog (tick decimalSetString ''X-1-1'' tickSinkDown process0) =
     [Println [NotFound ''X''], Fatalf ''timeout''] \<and>
   processLog (ticks decimalSetString ''X-1-1'' [tickSinkDown, tickSinkUp] process0) =
     [Println [NotFound ''X''], Fatalf ''timeout''] \<and>
   processLog (ticks decimalSetString ''X-1-1'' [tickSinkUp, tickSinkUp] process0) =
     [Println [NotFound ''X''], Println [NotFound ''X'']]"
proof -
  have 1: "tick decimalSetString ''X-1-1'' tickSinkDown process0 =
      \<lparr>alertState = Map.empty, processLog = [Println [NotFound ''X''], Fatalf ''timeout''],
       status = Exited 1\<rparr>"
    by (simp add: tick_def tickSinkDown_def process0_def Task_no_quotes PrintLog_def SendWx_def)
  have 2: "tick decimalSetString ''X-1-1'' tickSinkUp process0 =
      \<lparr>alertState = Map.empty, processLog = [Println [NotFound ''X'']], status = Running\<rparr>"
    by (simp add: tick_def tickSinkUp_def process0_def Task_no_quotes PrintLog_def SendWx_def)
  have 3: "tick decimalSetString ''X-1-1'' tickSinkUp
      \<lparr>alertState = Map.empty, processLog = [Println [NotFound ''X'']], status = Running\<rparr> =
      \<lparr>alertState = Map.empty, processLog = [Println [NotFound ''X''], Println [NotFound ''X'']],
       status = Running\<rparr>"
    by (simp add: tick_def tickSinkUp_def Task_no_quotes PrintLog_def SendWx_def)
  have "status (tick decimalSetString ''X-1-1'' tickSinkDown process0) \<noteq> Running"
    by (simp add: 1)
  then have 4: "ticks decimalSetString ''X-1-1'' [tickSinkUp]
      (tick decimalSetString ''X-1-1'' tickSinkDown process0) =
      tick decimalSetString ''X-1-1'' tickSinkDown process0"
    by (rule ticks_ended)
  have 5: "ticks decimalSetString ''X-1-1'' [tickSinkDown, tickSinkUp] process0 =
      tick decimalSetString ''X-1-1'' tickSinkDown process0"
    using 4 by simp
  have 6: "ticks decimalSetString ''X-1-1'' [tickSinkUp, tickSinkUp] process0 =
      \<lparr>alertState = Map.empty, processLog = [Println [NotFound ''X''], Println [NotFound ''X'']],
       status = Running\<rparr>"
    by (simp add: 2 3)
  show ?thesis unfolding 5 6 by (simp add: 1)
qed

text \<open>An instance of C4 as amended: the same process, rule and failing delivery.\<close>

theorem delivery_failure_ends_process_witness:
  "status process0 = Running \<and>
   Task decimalSetString ''X-1-1'' (today tickSinkDown) (fetchFundData tickSinkDown)
     (alertState process0) [] = (None, Map.empty, [NotFound ''X'']) \<and>
   [NotFound ''X''] \<noteq> [] \<and>
   Do tickSinkDown [NotFound ''X''] = Some ''timeout'' \<and>
   tick decimalSetString ''X-1-1'' tickSinkDown process0 =
     process0\<lparr>alertState := Map.empty,
              processLog := processLog process0 @ [Println [NotFound ''X''], Fatalf ''timeout''],
              status := Exited 1\<rparr> \<and>
   ticks decimalSetString ''X-1-1'' [tickSinkUp]
     (tick decimalSetString ''X-1-1'' tickSinkDown process0) =
     tick decimalSetString ''X-1-1'' tickSinkDown process0"
proof -
  have a: "status process0 = Running" by (simp add: process0_def)
  have b: "Task decimalSetString ''X-1-1'' (today tickSinkDown) (fetchFundData tickSinkDown)
     (alertState process0) [] = (None, Map.empty, [NotFound ''X''])"
    by (simp add: tickSinkDown_def process0_def Task_no_quotes)
  have c: "[NotFound ''X''] \<noteq> []" by simp
  have d: "Do tickSinkDown [NotFound ''X''] = Some ''timeout''" by (simp add: tickSinkDown_def)
  from delivery_failure_ends_process [OF a b c d, of "[tickSinkUp]"]
  show ?thesis using a b c d by blast
qed

text \<open>The quote of the examples: the gap line is sent, the price has not moved since the open.\<close>

lemma evalRules_X_10_8_10:
  "snd (snd (evalRules ''2024-01-02''
     (convertToMap ([] @ [quote ''X'' ''x'' (BFin 10) (BFin 8) (BFin 10)]))
     [\<lparr>RuleCode = ''X'', Up = Some (BFin 1), Down = Some (BFin 1)\<rparr>] Map.empty [])) =
   [GapLine ''x'' HighOpen ''20.00'']"
proof -
  let ?item = "quote ''X'' ''x'' (BFin 10) (BFin 8) (BFin 10)"
  let ?rule = "\<lparr>RuleCode = ''X'', Up = Some (BFin 1), Down = Some (BFin 1)\<rparr>"
  let ?m1 = "(Map.empty(''X2024-01-02'' \<mapsto> newData))(''X2024-01-02'' \<mapsto> newData\<lparr>InitPrice := True\<rparr>)"
  have c: "calculatePercentageChange (Open ?item) (Settlement ?item) = Inr (BFin 20)"
    by (simp add: quote_def calculatePercentageChange_10_8)
  have g: "GetLogData (Code ?item) ''2024-01-02'' Map.empty =
      (newData, Map.empty(''X2024-01-02'' \<mapsto> newData))"
    by (simp add: GetLogData_def quote_def)
  have cmp: "Cmp (Settlement ?item) (Open ?item) = - 1" by (simp add: quote_def Cmp_less)
  have i: "IsInitPrice ''2024-01-02'' ?item Map.empty [] =
      (None, ?m1, [GapLine ''x'' HighOpen ''20.00''])"
    using IsInitPrice_eq [OF c g, of "[]"] cmp
    by (simp add: notified_def Text_f2_20 del: Text_f2.simps) (simp add: quote_def)
  have u: "\<And>m l. IsUpDownPrice ''2024-01-02'' ?rule ?item m l = (None, m, l)"
    by (simp add: IsUpDownPrice_def quote_def calculatePercentageChange_def NewFloat100_def Cmp_same)
  have l: "convertToMap [?item] ''X'' = Some ?item"
    by (simp add: convertToMap_def quote_def)
  show ?thesis by (simp add: l i u)
qed

text \<open>
  C5, refuted as stated. The first class fails and the second has a quote of the
  watched code: the task returns with the line of the failure alone and the store
  unchanged, and the quote of the second class is not evaluated. With the first class
  empty instead, the same quote gives its gap line.
\<close>

theorem fetch_failure_skips_other_class:
  "fetchFundData tickETFDown LOF = fetchFundData tickETFEmpty LOF \<and>
   Task decimalSetString ''X-1-1'' ''2024-01-02'' (fetchFundData tickETFDown) Map.empty [] =
     (None, Map.empty, [FetchError ETF ''timeout'']) \<and>
   snd (snd (Task decimalSetString ''X-1-1'' ''2024-01-02'' (fetchFundData tickETFEmpty)
               Map.empty [])) = [GapLine ''x'' HighOpen ''20.00'']"
proof (intro conjI)
  show "fetchFundData tickETFDown LOF = fetchFundData tickETFEmpty LOF"
    by (simp add: tickETFDown_def tickETFEmpty_def)
  show "Task decimalSetString ''X-1-1'' ''2024-01-02'' (fetchFundData tickETFDown) Map.empty [] =
     (None, Map.empty, [FetchError ETF ''timeout''])"
    by (simp add: Task_def tickETFDown_def)
  show "snd (snd (Task decimalSetString ''X-1-1'' ''2024-01-02'' (fetchFundData tickETFEmpty)
               Map.empty [])) = [GapLine ''x'' HighOpen ''20.00'']"
    using evalRules_X_10_8_10 by (simp add: Task_def tickETFEmpty_def parseCodes_X_1_1)
qed

text \<open>An instance of C5 as amended: the failure of the first class, and of the second.\<close>

theorem fetch_failure_ends_task_witness:
  "fetchFundData tickETFDown ETF = Inl ''timeout'' \<and>
   Task decimalSetString ''X-1-1'' ''2024-01-02'' (fetchFundData tickETFDown) Map.empty [] =
     (None, Map.empty, [FetchError ETF ''timeout'']) \<and>
   (\<lambda>c. if c = LOF then Inl ''reset'' else Inr []) ETF = Inr [] \<and>
   (\<lambda>c. if c = LOF then Inl ''reset'' else Inr []) LOF = Inl ''reset'' \<and>
   Task decimalSetString ''X-1-1'' ''2024-01-02''
     (\<lambda>c. if c = LOF then Inl ''reset'' else Inr []) Map.empty [] =
     (None, Map.empty, [FetchError LOF ''reset'']) \<and>
   status process0 = Running \<and>
   Do tickETFDown [FetchError ETF ''timeout''] = None \<and>
   tick decimalSetString ''X-1-1'' tickETFDown process0 =
     process0\<lparr>processLog := processLog process0 @ [Println [FetchError ETF ''timeout'']]\<rparr>"
proof -
  let ?f2 = "\<lambda>c. if c = LOF then Inl ''reset'' else Inr ([]::JSONData list)"
  have a: "fetchFundData tickETFDown ETF = Inl ''timeout''" by (simp add: tickETFDown_def)
  have b1: "?f2 ETF = Inr []" and b2: "?f2 LOF = Inl ''reset''" by simp_all
  have c: "status process0 = Running" by (simp add: process0_def)
  have d: "Do tickETFDown [FetchError ETF ''timeout''] = None" by (simp add: tickETFDown_def)
  note t = fetch_failure_ends_task [where ?fetch1.0 = "fetchFundData tickETFDown"
      and ?err1.0 = "''timeout''" and ?fetch2.0 = ?f2 and ?data1.0 = "[]" and ?err2.0 = "''reset''"
      and proc = process0 and inp = tickETFDown and err = "''timeout''"
      and SetString = decimalSetString and codes = "''X-1-1''" and day = "''2024-01-02''"
      and m = Map.empty and logStr = "[]"]
  from t a have 1: "Task decimalSetString ''X-1-1'' ''2024-01-02'' (fetchFundData tickETFDown)
      Map.empty [] = (None, Map.empty, [FetchError ETF ''timeout''])"
    by simp
  from t b1 b2 have 2: "Task decimalSetString ''X-1-1'' ''2024-01-02'' ?f2 Map.empty [] =
      (None, Map.empty, [FetchError LOF ''reset''])"
    by simp
  from t a c d have 3: "tick decimalSetString ''X-1-1'' tickETFDown process0 =
      process0\<lparr>processLog := processLog process0 @ [Println [FetchError ETF ''timeout'']]\<rparr>"
    by blast
  show ?thesis by (intro conjI) (simp_all add: a 1 2 c d 3)
qed

text \<open>
  C9, refuted as stated. The entry \<open>159973-abc-0.01\<close> has three fields and an
  up-threshold that does not parse: it is kept, with a nil up-threshold.
\<close>

theorem unparsable_threshold_kept:
  "decimalSetString ''abc'' = None \<and>
   parseCodes decimalSetString ''159973-abc-0.01'' =
     [\<lparr>RuleCode = ''159973'', Up = None,
       Down = Some (BFin (5902958103587056517 / 590295810358705651712))\<rparr>]"
  by code_simp

text \<open>
  An instance of C9 as amended: of three entries, the one with two fields is dropped and
  the one with an unparsable threshold is kept.
\<close>

theorem parseCodes_three_fields_witness:
  "parseCodes decimalSetString ''X-1-1,Y-2,Z-a-10'' =
     [\<lparr>RuleCode = ''X'', Up = Some (BFin 1), Down = Some (BFin 1)\<rparr>,
      \<lparr>RuleCode = ''Z'', Up = None, Down = Some (BFin 10)\<rparr>]"
  by (subst parseCodes_three_fields) code_simp

section \<open>The program against exact arithmetic\<close>

lemma pow2_less_cancel: "pow2 a < pow2 b \<Longrightarrow> a < b"
  using pow2_mono [of b a] by (cases "a < b") auto

lemma pow2_le_cancel: "pow2 a \<le> pow2 b \<Longrightarrow> a \<le> b"
  using pow2_strict_mono [of b a] by (cases "a \<le> b") auto

lemma binexp_0: "binexp 0 = - 1"
  by code_simp

text \<open>
  The conversion to \<open>float64\<close> of a number in the range of the normal numbers is
  finite, and changes the number by at most the fraction \<open>2 ^ - 53\<close> of it.
\<close>

lemma roundF64_error:
  assumes lo: "pow2 (- 1022) \<le> \<bar>x\<bar>" and hi: "\<bar>x\<bar> < pow2 1023"
  shows "\<exists>r. roundF64 x = F64 r \<and> \<bar>r - x\<bar> \<le> \<bar>x\<bar> * pow2 (- 53)"
proof -
  have x0: "x \<noteq> 0" using lo pow2_pos [of "- 1022"] by auto
  have "pow2 (- 1022) < pow2 (binexp x)" using lo binexp_bounds(2) [OF x0] by simp
  then have e: "- 1022 < binexp x" by (rule pow2_less_cancel)
  then have q: "max (binexp x - 53) (- 1074) = binexp x - int 53" by simp
  let ?r = "round_prec 53 x"
  have r: "?r = of_int (roundHalfEven (x / pow2 (binexp x - int 53))) * pow2 (binexp x - int 53)"
    using x0 by (simp add: round_prec_def Let_def)
  have err: "\<bar>?r - x\<bar> \<le> \<bar>x\<bar> * pow2 (- 53)"
    using round_prec_error [of 53 x] by simp
  have "\<bar>?r\<bar> \<le> \<bar>x\<bar> + \<bar>x\<bar> * pow2 (- 53)" using err by linarith
  also have "\<dots> \<le> \<bar>x\<bar> * 2" by (simp add: pow2_def)
  also have "\<dots> < pow2 1023 * 2" using hi by simp
  also have "\<dots> = pow2 1024" by (simp add: pow2_def)
  finally have rhi: "\<bar>?r\<bar> < pow2 1024" .
  have "binexp ?r \<le> 1024"
  proof (cases "?r = 0")
    case True
    then show ?thesis by (simp add: binexp_0)
  next
    case False
    from binexp_bounds(1) [OF False] rhi have "pow2 (binexp ?r - 1) < pow2 1024" by simp
    then have "binexp ?r - 1 < 1024" by (rule pow2_less_cancel)
    then show ?thesis by simp
  qed
  then have "roundF64 x = F64 ?r"
    using x0 q r by (simp add: roundF64_def Let_def)
  with err show ?thesis by blast
qed

text \<open>A relative error composed with the rounding of a product by a constant.\<close>

lemma rel_step:
  fixes x y z c e u :: rat
  assumes "\<bar>y - x\<bar> \<le> \<bar>x\<bar> * e" and "\<bar>z - y * c\<bar> \<le> \<bar>y * c\<bar> * u" and "0 \<le> e" and "0 \<le> u"
  shows "\<bar>z - x * c\<bar> \<le> \<bar>x * c\<bar> * (e + u + e * u)"
proof -
  have y: "\<bar>y\<bar> \<le> \<bar>x\<bar> * (1 + e)" using assms(1) by (simp add: algebra_simps)
  have "\<bar>z - x * c\<bar> \<le> \<bar>z - y * c\<bar> + \<bar>(y - x) * c\<bar>"
    by (simp add: algebra_simps)
  also have "\<dots> \<le> \<bar>y * c\<bar> * u + \<bar>(y - x) * c\<bar>" using assms(2) by simp
  also have "\<dots> = \<bar>y\<bar> * (\<bar>c\<bar> * u) + \<bar>y - x\<bar> * \<bar>c\<bar>" by (simp add: abs_mult)
  also have "\<dots> \<le> \<bar>x\<bar> * (1 + e) * (\<bar>c\<bar> * u) + \<bar>x\<bar> * e * \<bar>c\<bar>"
    using y assms(1,3,4) by (intro add_mono mult_right_mono) simp_all
  also have "\<dots> = \<bar>x * c\<bar> * (e + u + e * u)" by (simp add: abs_mult algebra_simps)
  finally show ?thesis .
qed

text \<open>
  The percentage of two finite prices is the exact percentage up to the fraction
  \<open>2 ^ - 62\<close> of it: three roundings to 64 bits.
\<close>

lemma calculatePercentageChange_error:
  assumes "a \<noteq> 0" and "a \<noteq> b"
  shows "\<exists>v. calculatePercentageChange (BFin a) (BFin b) = Inr (BFin v) \<and>
             \<bar>v - (a - b) / a * 100\<bar> \<le> \<bar>(a - b) / a * 100\<bar> * pow2 (- 62)"
proof -
  let ?u = "pow2 (- int 64)"
  let ?d = "round_prec 64 (a - b)"
  let ?q = "round_prec 64 (?d / a)"
  let ?v = "round_prec 64 (?q * 100)"
  have u: "0 \<le> ?u" using pow2_pos [of "- int 64"] by simp
  have c: "calculatePercentageChange (BFin a) (BFin b) = Inr (BFin ?v)"
    using assms by (simp add: calculatePercentageChange_def NewFloat100_def)
  have 1: "\<bar>?d - (a - b)\<bar> \<le> \<bar>a - b\<bar> * ?u" by (rule round_prec_error)
  have 2: "\<bar>?q - ?d * (1 / a)\<bar> \<le> \<bar>?d * (1 / a)\<bar> * ?u"
    using round_prec_error [of 64 "?d / a"] by simp
  have 3: "\<bar>?v - ?q * 100\<bar> \<le> \<bar>?q * 100\<bar> * ?u" by (rule round_prec_error)
  from rel_step [OF 1 2 u u]
  have 4: "\<bar>?q - (a - b) * (1 / a)\<bar> \<le> \<bar>(a - b) * (1 / a)\<bar> * (?u + ?u + ?u * ?u)" .
  have "0 \<le> ?u + ?u + ?u * ?u" using u by simp
  from rel_step [OF 4 3 this u]
  have "\<bar>?v - (a - b) * (1 / a) * 100\<bar>
      \<le> \<bar>(a - b) * (1 / a) * 100\<bar> * (?u + ?u + ?u * ?u + ?u + (?u + ?u + ?u * ?u) * ?u)" .
  also have "\<dots> \<le> \<bar>(a - b) * (1 / a) * 100\<bar> * pow2 (- 62)"
    by (intro mult_left_mono) (simp_all add: pow2_def)
  finally have "\<bar>?v - (a - b) / a * 100\<bar> \<le> \<bar>(a - b) / a * 100\<bar> * pow2 (- 62)" by simp
  with c show ?thesis by blast
qed

lemma rel_bounds:
  fixes x r u :: rat
  assumes "\<bar>r - x\<bar> \<le> \<bar>x\<bar> * u" and "0 < x"
  shows "x * (1 - u) \<le> r" and "r \<le> x * (1 + u)"
  using assms by (simp_all add: abs_le_iff algebra_simps)

lemma rel_bounds_abs:
  fixes x r u :: rat
  assumes "\<bar>r - x\<bar> \<le> \<bar>x\<bar> * u"
  shows "\<bar>x\<bar> * (1 - u) \<le> \<bar>r\<bar>" and "\<bar>r\<bar> \<le> \<bar>x\<bar> * (1 + u)"
  using assms by (simp_all add: algebra_simps)

text \<open>
  The threshold test against exact arithmetic. For a change \<open>v\<close>, a base \<open>t\<close> and a
  rung \<open>n\<close> in ranges far inside the normal \<open>float64\<close> numbers, the test holds when
  \<open>\<bar>v\<bar>\<close> exceeds \<open>t * n\<close> by the fraction \<open>2 ^ - 50\<close>, and fails when it is below by
  that fraction.
\<close>

lemma thresholdTest_away:
  fixes v t :: rat
  assumes n: "fs ! nat k = n" and n1: "1 \<le> n" and n2: "n \<le> 2 ^ 20"
    and t1: "pow2 (- 500) \<le> t" and t2: "t \<le> pow2 500"
    and v1: "pow2 (- 500) \<le> \<bar>v\<bar>" and v2: "\<bar>v\<bar> \<le> pow2 500"
  shows "t * of_int n * (1 + pow2 (- 50)) \<le> \<bar>v\<bar> \<Longrightarrow> thresholdTest (BFin v) (BFin t) fs k"
    and "\<bar>v\<bar> \<le> t * of_int n * (1 - pow2 (- 50)) \<Longrightarrow> \<not> thresholdTest (BFin v) (BFin t) fs k"
proof -
  define u :: rat where "u = pow2 (- 53)"
  define N :: rat where "N = of_int n"
  have u: "0 < u" "u < 1" by (simp_all add: u_def pow2_def)
  have tpos: "0 < t" using t1 pow2_pos [of "- 500"] by linarith
  have N1: "1 \<le> N" using n1 by (simp add: N_def)
  have N2: "N \<le> pow2 20"
  proof -
    have "(of_int n :: rat) \<le> of_int (2 ^ 20)" using n2 by (simp only: of_int_le_iff)
    then show ?thesis by (simp add: N_def pow2_def)
  qed
  have Npos: "0 < N" using N1 by simp
  have p1: "pow2 (- 1022) \<le> pow2 (- 500)" and p2: "pow2 500 < pow2 1023"
    and p3: "pow2 (- 1022) \<le> 1" and p4: "pow2 20 < pow2 1023"
    by (simp_all add: pow2_mono pow2_strict_mono) (simp add: pow2_def)
  obtain c where c: "roundF64 v = F64 c" and ce: "\<bar>c - v\<bar> \<le> \<bar>v\<bar> * u"
    using roundF64_error [of v] v1 v2 p1 p2 unfolding u_def by force
  obtain b where b: "roundF64 t = F64 b" and be: "\<bar>b - t\<bar> \<le> \<bar>t\<bar> * u"
    using roundF64_error [of t] t1 t2 tpos p1 p2 unfolding u_def by force
  obtain m where m: "roundF64 N = F64 m" and me: "\<bar>m - N\<bar> \<le> \<bar>N\<bar> * u"
    using roundF64_error [of N] N1 N2 p3 p4 unfolding u_def by force
  note bb = rel_bounds [OF be tpos] and mb = rel_bounds [OF me Npos]
  have blo: "0 < t * (1 - u)" and mlo: "0 < N * (1 - u)" using tpos Npos u by simp_all
  have bpos: "0 < b" and mpos: "0 < m" using bb(1) mb(1) blo mlo by linarith+
  have bm_hi: "b * m \<le> t * (1 + u) * (N * (1 + u))"
    using bb(2) mb(2) bpos mpos by (intro mult_mono) simp_all
  have bm_lo: "t * (1 - u) * (N * (1 - u)) \<le> b * m"
    using bb(1) mb(1) blo mlo by (intro mult_mono) simp_all
  have bmpos: "0 < b * m" using bpos mpos by simp
  have r1: "pow2 (- 1022) \<le> \<bar>b * m\<bar>"
  proof -
    have h: "1 / 2 \<le> 1 - u" by (simp add: u_def pow2_def)
    have a1: "pow2 (- 500) * (1 / 2) \<le> t * (1 - u)"
      by (rule mult_mono [OF t1 h]) (use tpos in simp_all)
    have a2: "1 * (1 / 2) \<le> N * (1 - u)"
      by (rule mult_mono [OF N1 h]) (use Npos in simp_all)
    have "pow2 (- 500) * (1 / 2) * (1 * (1 / 2)) \<le> t * (1 - u) * (N * (1 - u))"
      by (rule mult_mono [OF a1 a2]) (use blo in simp_all)
    moreover have "pow2 (- 1022) \<le> pow2 (- 500) * (1 / 2) * (1 * (1 / 2))"
      by (simp add: pow2_def)
    ultimately show ?thesis using bm_lo bmpos by linarith
  qed
  have r2: "\<bar>b * m\<bar> < pow2 1023"
  proof -
    have h: "1 + u \<le> 2" using u by simp
    have a1: "t * (1 + u) \<le> pow2 500 * 2"
      by (rule mult_mono [OF t2 h]) (use u pow2_pos [of 500] in simp_all)
    have a2: "N * (1 + u) \<le> pow2 20 * 2"
      by (rule mult_mono [OF N2 h]) (use u pow2_pos [of 20] in simp_all)
    have "t * (1 + u) * (N * (1 + u)) \<le> pow2 500 * 2 * (pow2 20 * 2)"
      by (rule mult_mono [OF a1 a2]) (use u Npos pow2_pos [of 500] in simp_all)
    moreover have "pow2 500 * 2 * (pow2 20 * 2) < pow2 1023" by (simp add: pow2_def)
    ultimately show ?thesis using bm_hi bmpos by linarith
  qed
  obtain T where T: "roundF64 (b * m) = F64 T" and Te: "\<bar>T - b * m\<bar> \<le> \<bar>b * m\<bar> * u"
    using roundF64_error [OF r1 r2] unfolding u_def by force
  note Tb = rel_bounds [OF Te bmpos]
  have test: "thresholdTest (BFin v) (BFin t) fs k = (T \<le> \<bar>c\<bar>)"
    using c b m T n by (simp add: thresholdTest_def float64_of_int_def N_def)
  note cb = rel_bounds_abs [OF ce]
  let ?K = "t * N"
  have Kpos: "0 < ?K" using tpos Npos by simp
  have T_hi: "T \<le> ?K * ((1 + u) * (1 + u) * (1 + u))"
  proof -
    have "T \<le> b * m * (1 + u)" by (rule Tb(2))
    also have "\<dots> \<le> t * (1 + u) * (N * (1 + u)) * (1 + u)"
      using bm_hi u by (intro mult_right_mono) simp_all
    finally show ?thesis by (simp add: algebra_simps)
  qed
  have T_lo: "?K * ((1 - u) * (1 - u) * (1 - u)) \<le> T"
  proof -
    have "t * (1 - u) * (N * (1 - u)) * (1 - u) \<le> b * m * (1 - u)"
      using bm_lo u by (intro mult_right_mono) simp_all
    also have "\<dots> \<le> T" by (rule Tb(1))
    finally show ?thesis by (simp add: algebra_simps)
  qed
  have num1: "(1 + u) * (1 + u) * (1 + u) \<le> (1 + pow2 (- 50)) * (1 - u)"
    and num2: "(1 - pow2 (- 50)) * (1 + u) < (1 - u) * (1 - u) * (1 - u)"
    by (simp_all add: u_def pow2_def)
  {
    assume a: "t * of_int n * (1 + pow2 (- 50)) \<le> \<bar>v\<bar>"
    have "T \<le> ?K * ((1 + u) * (1 + u) * (1 + u))" by (rule T_hi)
    also have "\<dots> \<le> ?K * ((1 + pow2 (- 50)) * (1 - u))"
      using num1 Kpos by (intro mult_left_mono) simp_all
    also have "\<dots> = ?K * (1 + pow2 (- 50)) * (1 - u)" by simp
    also have "\<dots> \<le> \<bar>v\<bar> * (1 - u)"
      using a u by (intro mult_right_mono) (simp_all add: N_def)
    also have "\<dots> \<le> \<bar>c\<bar>" by (rule cb(1))
    finally show "thresholdTest (BFin v) (BFin t) fs k" by (simp add: test)
  }
  {
    assume a: "\<bar>v\<bar> \<le> t * of_int n * (1 - pow2 (- 50))"
    have "\<bar>c\<bar> \<le> \<bar>v\<bar> * (1 + u)" by (rule cb(2))
    also have "\<dots> \<le> ?K * (1 - pow2 (- 50)) * (1 + u)"
      using a u by (intro mult_right_mono) (simp_all add: N_def)
    also have "\<dots> = ?K * ((1 - pow2 (- 50)) * (1 + u))" by simp
    also have "\<dots> < ?K * ((1 - u) * (1 - u) * (1 - u))"
      using num2 Kpos by (intro mult_strict_left_mono) simp_all
    also have "\<dots> \<le> T" by (rule T_lo)
    finally show "\<not> thresholdTest (BFin v) (BFin t) fs k" by (simp add: test)
  }
qed

lemma ladder_entries:
  assumes "0 \<le> i" and "i < 20"
  shows "1 \<le> fibonacciSequence ! nat i" and "fibonacciSequence ! nat i \<le> 2 ^ 20"
proof -
  have "\<forall>n \<in> set fibonacciSequence. 1 \<le> n \<and> n \<le> 2 ^ 20"
    by (simp add: fibonacciSequence_eq)
  moreover have "fibonacciSequence ! nat i \<in> set fibonacciSequence"
    using assms by (intro nth_mem) (simp add: length_fibonacciSequence)
  ultimately show "1 \<le> fibonacciSequence ! nat i" and "fibonacciSequence ! nat i \<le> 2 ^ 20"
    by blast+
qed

lemma calculatePercentageChange_20000_19965:
  "calculatePercentageChange (BFin 20000) (BFin 19965) =
     Inr (BFin (12912720851596686131 / 73786976294838206464))"
  by code_simp

lemma Text_f2_0_175: "Text_f2 (BFin (12912720851596686131 / 73786976294838206464)) = ''0.17''"
  by code_simp

text \<open>
  C6, refuted as stated. A quote that opened at 997 and trades at 1000 has moved by
  exactly 0.3 percent, and the threshold 0.10 times the rung 3 is exactly 0.3: in exact
  decimal arithmetic the rung at index 2 is reached. The program computes a percentage
  that is not 0.3 and a threshold that is not 0.1, both binary roundings, and
  \<open>IsFibonacciSequence\<close> does not advance from the index 2. A quote that opened at
  19965 and trades at 20000 has moved by exactly 0.175 percent, 0.18 to two decimals;
  the percentage computed is below 0.175 and is rendered as 0.17.
\<close>

theorem binary_rounding_perturbs_comparison:
  "calculatePercentageChange (BFin 1000) (BFin 997) =
     Inr (BFin (5534023222112865485 / 18446744073709551616)) \<and>
   (5534023222112865485 / 18446744073709551616 :: rat) \<noteq> (1000 - 997) / 1000 * 100 \<and>
   decimalSetString ''0.10'' = Some (BFin (14757395258967641293 / 147573952589676412928)) \<and>
   (14757395258967641293 / 147573952589676412928 :: rat) \<noteq> 1 / 10 \<and>
   (1 / 10 :: rat) * of_int (fibonacciSequence ! 2) \<le> \<bar>(1000 - 997) / 1000 * 100\<bar> \<and>
   IsFibonacciSequence (BFin (5534023222112865485 / 18446744073709551616))
     (decimalSetString ''0.10'') fibonacciSequence 2 = Inr 2 \<and>
   calculatePercentageChange (BFin 20000) (BFin 19965) =
     Inr (BFin (12912720851596686131 / 73786976294838206464)) \<and>
   Text_f2 (BFin (12912720851596686131 / 73786976294838206464)) = ''0.17'' \<and>
   roundHalfEven ((20000 - 19965) / 20000 * 100 * 100) = 18"
proof -
  have "roundHalfEven ((20000 - 19965) / 20000 * 100 * 100) = 18"
    by code_simp
  then show ?thesis
    using test_move_0_30
    by (simp add: calculatePercentageChange_1000_997 decimalSetString_0_10
        IsFibonacciSequence_Some fibonacciSequence_eq calculatePercentageChange_20000_19965
        Text_f2_0_175 del: Text_f2.simps)
qed

text \<open>
  C6 as amended. The percentage and the threshold comparison are computed in rounded
  binary floating point. The percentage of two finite prices is the exact percentage up
  to the fraction \<open>2 ^ - 62\<close> of it. For a change and a base threshold between
  \<open>2 ^ - 500\<close> and \<open>2 ^ 500\<close> in magnitude and a rung of the ladder,
  \<open>IsFibonacciSequence\<close> advances when the magnitude of the change exceeds the exact
  product of base and rung by the fraction \<open>2 ^ - 50\<close>, and does not advance when it is
  below by that fraction; in between the roundings decide. The rendering with two
  decimals is that of the hundredth nearest, ties to even, to the binary value
  rendered.
\<close>

theorem binary_rounding_bounds:
  "(a \<noteq> 0 \<and> a \<noteq> b \<longrightarrow>
      (\<exists>v. calculatePercentageChange (BFin a) (BFin b) = Inr (BFin v) \<and>
           \<bar>v - (a - b) / a * 100\<bar> \<le> \<bar>(a - b) / a * 100\<bar> * pow2 (- 62))) \<and>
   (0 \<le> i \<and> i < 20 \<and> pow2 (- 500) \<le> t \<and> t \<le> pow2 500 \<and>
    pow2 (- 500) \<le> \<bar>c\<bar> \<and> \<bar>c\<bar> \<le> pow2 500 \<and>
    t * of_int (fibonacciSequence ! nat i) * (1 + pow2 (- 50)) \<le> \<bar>c\<bar> \<longrightarrow>
      IsFibonacciSequence (BFin c) (Some (BFin t)) fibonacciSequence i = Inr (i + 1)) \<and>
   (0 \<le> i' \<and> i' < 20 \<and> pow2 (- 500) \<le> t' \<and> t' \<le> pow2 500 \<and>
    pow2 (- 500) \<le> \<bar>c'\<bar> \<and> \<bar>c'\<bar> \<le> pow2 500 \<and>
    \<bar>c'\<bar> \<le> t' * of_int (fibonacciSequence ! nat i') * (1 - pow2 (- 50)) \<longrightarrow>
      IsFibonacciSequence (BFin c') (Some (BFin t')) fibonacciSequence i' = Inr i') \<and>
   Text_f2 (BFin x) =
     (if x < 0 then ''-'' else []) @ digits (nat (roundHalfEven (\<bar>x\<bar> * 100)) div 100) @ ''.'' @
     [digitChar (nat (roundHalfEven (\<bar>x\<bar> * 100)) div 10),
      digitChar (nat (roundHalfEven (\<bar>x\<bar> * 100)))] \<and>
   \<bar>of_int (roundHalfEven (\<bar>x\<bar> * 100)) - \<bar>x\<bar> * 100\<bar> \<le> 1 / 2"
proof (intro conjI impI)
  assume "a \<noteq> 0 \<and> a \<noteq> b"
  then show "\<exists>v. calculatePercentageChange (BFin a) (BFin b) = Inr (BFin v) \<and>
           \<bar>v - (a - b) / a * 100\<bar> \<le> \<bar>(a - b) / a * 100\<bar> * pow2 (- 62)"
    using calculatePercentageChange_error [of a b] by blast
next
  assume h: "0 \<le> i \<and> i < 20 \<and> pow2 (- 500) \<le> t \<and> t \<le> pow2 500 \<and>
    pow2 (- 500) \<le> \<bar>c\<bar> \<and> \<bar>c\<bar> \<le> pow2 500 \<and>
    t * of_int (fibonacciSequence ! nat i) * (1 + pow2 (- 50)) \<le> \<bar>c\<bar>"
  then have "thresholdTest (BFin c) (BFin t) fibonacciSequence i"
    by (intro thresholdTest_away(1) [OF refl ladder_entries]) simp_all
  with h show "IsFibonacciSequence (BFin c) (Some (BFin t)) fibonacciSequence i = Inr (i + 1)"
    by (simp add: IsFibonacciSequence_Some length_fibonacciSequence)
next
  assume h: "0 \<le> i' \<and> i' < 20 \<and> pow2 (- 500) \<le> t' \<and> t' \<le> pow2 500 \<and>
    pow2 (- 500) \<le> \<bar>c'\<bar> \<and> \<bar>c'\<bar> \<le> pow2 500 \<and>
    \<bar>c'\<bar> \<le> t' * of_int (fibonacciSequence ! nat i') * (1 - pow2 (- 50))"
  then have "\<not> thresholdTest (BFin c') (BFin t') fibonacciSequence i'"
    by (intro thresholdTest_away(2) [OF refl ladder_entries]) simp_all
  with h show "IsFibonacciSequence (BFin c') (Some (BFin t')) fibonacciSequence i' = Inr i'"
    by (simp add: IsFibonacciSequence_Some length_fibonacciSequence)
next
  show "Text_f2 (BFin x) =
     (if x < 0 then ''-'' else []) @ digits (nat (roundHalfEven (\<bar>x\<bar> * 100)) div 100) @ ''.'' @
     [digitChar (nat (roundHalfEven (\<bar>x\<bar> * 100)) div 10),
      digitChar (nat (roundHalfEven (\<bar>x\<bar> * 100)))]"
    by (simp add: Let_def)
next
  show "\<bar>of_int (roundHalfEven (\<bar>x\<bar> * 100)) - \<bar>x\<bar> * 100\<bar> \<le> 1 / 2"
    by (rule roundHalfEven_error)
qed

text \<open>
  An instance of C6 as amended: the move from 997 to 1000, and the change 20 against
  the base 10, above the first rung and below the third.
\<close>

theorem binary_rounding_bounds_witness:
  "(1000::rat) \<noteq> 0 \<and> (1000::rat) \<noteq> 997 \<and>
   calculatePercentageChange (BFin 1000) (BFin 997) =
     Inr (BFin (5534023222112865485 / 18446744073709551616)) \<and>
   \<bar>5534023222112865485 / 18446744073709551616 - (1000 - 997) / 1000 * 100\<bar>
     \<le> \<bar>(1000 - 997) / 1000 * 100 :: rat\<bar> * pow2 (- 62) \<and>
   pow2 (- 500) \<le> 10 \<and> (10::rat) \<le> pow2 500 \<and> pow2 (- 500) \<le> \<bar>20\<bar> \<and> \<bar>20::rat\<bar> \<le> pow2 500 \<and>
   10 * of_int (fibonacciSequence ! nat 0) * (1 + pow2 (- 50)) \<le> \<bar>20::rat\<bar> \<and>
   IsFibonacciSequence (BFin 20) (Some (BFin 10)) fibonacciSequence 0 = Inr (0 + 1) \<and>
   \<bar>20::rat\<bar> \<le> 10 * of_int (fibonacciSequence ! nat 2) * (1 - pow2 (- 50)) \<and>
   IsFibonacciSequence (BFin 20) (Some (BFin 10)) fibonacciSequence 2 = Inr 2"
proof -
  note t = binary_rounding_bounds [where a = 1000 and b = 997 and i = 0 and t = 10 and c = 20
      and i' = 2 and t' = 10 and c' = 20]
  have r: "pow2 (- 500) \<le> 10" "(10::rat) \<le> pow2 500" "pow2 (- 500) \<le> \<bar>20\<bar>"
    "\<bar>20::rat\<bar> \<le> pow2 500"
    by (simp_all add: pow2_def)
  have u: "10 * of_int (fibonacciSequence ! nat 0) * (1 + pow2 (- 50)) \<le> \<bar>20::rat\<bar>"
    and l: "\<bar>20::rat\<bar> \<le> 10 * of_int (fibonacciSequence ! nat 2) * (1 - pow2 (- 50))"
    by (simp_all add: fibonacciSequence_eq pow2_def)
  from t obtain v where "calculatePercentageChange (BFin 1000) (BFin 997) = Inr (BFin v)"
    and e: "\<bar>v - (1000 - 997) / 1000 * 100\<bar> \<le> \<bar>(1000 - 997) / 1000 * 100\<bar> * pow2 (- 62)"
    by auto
  then have "v = 5534023222112865485 / 18446744073709551616"
    by (simp add: calculatePercentageChange_1000_997)
  with e have 1: "\<bar>5534023222112865485 / 18446744073709551616 - (1000 - 997) / 1000 * 100\<bar>
     \<le> \<bar>(1000 - 997) / 1000 * 100 :: rat\<bar> * pow2 (- 62)"
    by simp
  have z: "(0::int) \<le> 0" "(0::int) < 20" "(0::int) \<le> 2" "(2::int) < 20" by simp_all
  from t r u z have 2: "IsFibonacciSequence (BFin 20) (Some (BFin 10)) fibonacciSequence 0 = Inr (0 + 1)"
    by blast
  from t r l z have 3: "IsFibonacciSequence (BFin 20) (Some (BFin 10)) fibonacciSequence 2 = Inr 2"
    by blast
  show ?thesis
    by (intro conjI) (fact r u l 1 2 3 calculatePercentageChange_1000_997 | simp)+
qed

end
